theory Spec2Isabelle
  imports Complex_Main
begin

section \<open>Document state (context/DrawingContext)\<close>

text \<open>
  JavaScript numbers are modelled as exact reals: the reducer and the tools only add,
  subtract, compare and take \<open>max\<close>/\<open>min\<close> of finite values, and the trigonometry of
  the angle tool is read as the mathematical function. Page counts and page numbers are
  integers, history positions are natural numbers (they start at 0 and only move by a
  guarded step of one).
\<close>

datatype Tool = Tool_select | Tool_line | Tool_angle | Tool_freehand | Tool_eraser | Tool_text

datatype Units = Units_mm | Units_cm | Units_in | Units_ft

definition A4_WIDTH_MM :: real where
  "A4_WIDTH_MM = 210"

definition A4_HEIGHT_MM :: real where
  "A4_HEIGHT_MM = 297"

definition MM_TO_PX :: real where
  "MM_TO_PX = 3779527559 / 1000000000"

definition PAGE_MARGIN :: real where
  "PAGE_MARGIN = 20"

record Point =
  px :: real
  py :: real

datatype ElementType = Type_line | Type_angle | Type_freehand | Type_text

record Style =
  strokeColor :: string
  strokeWidth :: real
  fillColor :: "string option"

record Measurements =
  m_length :: "real option"
  m_radius :: "real option"
  m_angle :: "real option"

text \<open>An optional field (\<open>text?\<close>, \<open>fontSize?\<close>, ...) is \<open>None\<close> when it is absent.\<close>

record DrawingElement =
  el_id :: string
  el_type :: ElementType
  points :: "Point list"
  style :: Style
  layerId :: string
  el_text :: "string option"
  fontSize :: "real option"
  measurements :: "Measurements option"
  selected :: "bool option"

record Layer =
  layer_id :: string
  layer_name :: string
  visible :: bool
  locked :: bool
  color :: string

record StrokeSettings =
  set_strokeWidth :: real
  set_strokeColor :: string

record TextSettings =
  set_fontSize :: real
  set_textColor :: string

record EraserSettings =
  set_eraserWidth :: real

record ToolSettings =
  ts_line :: StrokeSettings
  ts_angle :: StrokeSettings
  ts_freehand :: StrokeSettings
  ts_text :: TextSettings
  ts_eraser :: EraserSettings

record SavedProject =
  sp_id :: string
  sp_name :: string
  sp_data :: "DrawingElement list"
  sp_timestamp :: real

record DrawingState =
  currentTool :: Tool
  elements :: "DrawingElement list"
  selectedElementIds :: "string list"
  layers :: "Layer list"
  currentLayerId :: string
  gridSize :: real
  gridVisible :: bool
  snapToGrid :: bool
  units :: Units
  zoom :: real
  panOffset :: Point
  history :: "DrawingElement list list"
  historyIndex :: nat
  toolSettings :: ToolSettings
  isDragging :: bool
  dragStart :: "Point option"
  editingElement :: "string option"
  savedProjects :: "SavedProject list"
  currentProjectName :: string
  snapThreshold :: real
  currentPage :: int
  totalPages :: int
  pageWidth :: real
  pageHeight :: real
  minZoom :: real

subsection \<open>Actions\<close>

text \<open>
  \<open>Partial<T>\<close> payloads: a field is \<open>Some v\<close> when the payload carries it. For a field
  that is itself optional in \<open>T\<close> the payload may carry the value \<open>undefined\<close>, which
  is \<open>Some None\<close>.
\<close>

record ElementPartial =
  ep_id :: "string option"
  ep_type :: "ElementType option"
  ep_points :: "Point list option"
  ep_style :: "Style option"
  ep_layerId :: "string option"
  ep_text :: "string option option"
  ep_fontSize :: "real option option"
  ep_measurements :: "Measurements option option"
  ep_selected :: "bool option option"

record LayerPartial =
  lp_id :: "string option"
  lp_name :: "string option"
  lp_visible :: "bool option"
  lp_locked :: "bool option"
  lp_color :: "string option"

record SettingsPartial =
  part_strokeWidth :: "real option"
  part_strokeColor :: "string option"
  part_fontSize :: "real option"

datatype ToolKey = Key_line | Key_angle | Key_freehand | Key_text | Key_eraser

datatype DrawingAction =
    SET_TOOL Tool
  | ADD_ELEMENT DrawingElement
  | UPDATE_ELEMENT string ElementPartial
  | DELETE_ELEMENTS "string list"
  | SELECT_ELEMENTS "string list"
  | REPLACE_ELEMENTS "DrawingElement list"
  | SET_GRID_SIZE real
  | TOGGLE_GRID "bool option"
  | TOGGLE_SNAP "bool option"
  | SET_UNITS Units
  | SET_ZOOM real
  | SET_PAN Point
  | ADD_LAYER Layer
  | UPDATE_LAYER string LayerPartial
  | DELETE_LAYER string
  | SET_CURRENT_LAYER string
  | UNDO
  | REDO
  | SAVE_STATE
  | UPDATE_TOOL_SETTINGS ToolKey SettingsPartial
  | SET_DRAGGING bool "Point option option"
  | SET_EDITING_ELEMENT "string option"
  | SAVE_PROJECT string
  | LOAD_PROJECT string
  | SET_PROJECT_NAME string
  | SET_CURRENT_PAGE int
  | ADD_PAGE
  | DELETE_PAGE int
  | CLEAR_CANVAS
  | SET_MIN_ZOOM real

definition initialState :: DrawingState where
  "initialState = \<lparr>
     currentTool = Tool_select,
     elements = [],
     selectedElementIds = [],
     layers =
       [\<lparr>layer_id = ''layer-1'', layer_name = ''Layer 1'', visible = True, locked = False,
          color = ''#ffffff''\<rparr>,
        \<lparr>layer_id = ''layer-2'', layer_name = ''Dimensions'', visible = True, locked = False,
          color = ''#00ff00''\<rparr>,
        \<lparr>layer_id = ''layer-3'', layer_name = ''Construction'', visible = True, locked = False,
          color = ''#ffff00''\<rparr>],
     currentLayerId = ''layer-1'',
     gridSize = 10,
     gridVisible = True,
     snapToGrid = True,
     units = Units_mm,
     zoom = 1,
     panOffset = \<lparr>px = 0, py = 0\<rparr>,
     history = [[]],
     historyIndex = 0,
     toolSettings = \<lparr>
       ts_line = \<lparr>set_strokeWidth = 2, set_strokeColor = ''#ffffff''\<rparr>,
       ts_angle = \<lparr>set_strokeWidth = 2, set_strokeColor = ''#00ff00''\<rparr>,
       ts_freehand = \<lparr>set_strokeWidth = 2, set_strokeColor = ''#ffffff''\<rparr>,
       ts_text = \<lparr>set_fontSize = 14, set_textColor = ''#ffffff''\<rparr>,
       ts_eraser = \<lparr>set_eraserWidth = 10\<rparr>\<rparr>,
     isDragging = False,
     dragStart = None,
     editingElement = None,
     savedProjects = [],
     currentProjectName = ''Untitled Project'',
     snapThreshold = 7,
     currentPage = 1,
     totalPages = 1,
     pageWidth = of_int (round (A4_WIDTH_MM * MM_TO_PX)),
     pageHeight = of_int (round (A4_HEIGHT_MM * MM_TO_PX)),
     minZoom = 1 / 2\<rparr>"

subsection \<open>The reducer\<close>

text \<open>
  The reducer is a total function in TypeScript's types, but two reads can leave them.
  \<open>layers[0].id\<close> in DELETE_LAYER throws a TypeError when no layer survives the filter.
  \<open>state.history[i]\<close> past the end is \<open>undefined\<close>, which UNDO and REDO would store as
  the element list; the model has no such list and reports \<open>Elements_undefined\<close>.
\<close>

datatype js_error = TypeError | Elements_undefined

definition merge_element :: "DrawingElement \<Rightarrow> ElementPartial \<Rightarrow> DrawingElement" where
  "merge_element el p = \<lparr>
     el_id = (case ep_id p of Some v \<Rightarrow> v | None \<Rightarrow> el_id el),
     el_type = (case ep_type p of Some v \<Rightarrow> v | None \<Rightarrow> el_type el),
     points = (case ep_points p of Some v \<Rightarrow> v | None \<Rightarrow> points el),
     style = (case ep_style p of Some v \<Rightarrow> v | None \<Rightarrow> style el),
     layerId = (case ep_layerId p of Some v \<Rightarrow> v | None \<Rightarrow> layerId el),
     el_text = (case ep_text p of Some v \<Rightarrow> v | None \<Rightarrow> el_text el),
     fontSize = (case ep_fontSize p of Some v \<Rightarrow> v | None \<Rightarrow> fontSize el),
     measurements = (case ep_measurements p of Some v \<Rightarrow> v | None \<Rightarrow> measurements el),
     selected = (case ep_selected p of Some v \<Rightarrow> v | None \<Rightarrow> selected el)\<rparr>"

definition merge_layer :: "Layer \<Rightarrow> LayerPartial \<Rightarrow> Layer" where
  "merge_layer l p = \<lparr>
     layer_id = (case lp_id p of Some v \<Rightarrow> v | None \<Rightarrow> layer_id l),
     layer_name = (case lp_name p of Some v \<Rightarrow> v | None \<Rightarrow> layer_name l),
     visible = (case lp_visible p of Some v \<Rightarrow> v | None \<Rightarrow> visible l),
     locked = (case lp_locked p of Some v \<Rightarrow> v | None \<Rightarrow> locked l),
     color = (case lp_color p of Some v \<Rightarrow> v | None \<Rightarrow> color l)\<rparr>"

text \<open>
  UPDATE_TOOL_SETTINGS spreads the payload over one tool's settings. A payload field the
  tool's settings type does not declare becomes an extra property that no typed read
  sees; the model drops it.
\<close>

definition merge_stroke :: "StrokeSettings \<Rightarrow> SettingsPartial \<Rightarrow> StrokeSettings" where
  "merge_stroke t p = \<lparr>
     set_strokeWidth = (case part_strokeWidth p of Some v \<Rightarrow> v | None \<Rightarrow> set_strokeWidth t),
     set_strokeColor = (case part_strokeColor p of Some v \<Rightarrow> v | None \<Rightarrow> set_strokeColor t)\<rparr>"

definition merge_text :: "TextSettings \<Rightarrow> SettingsPartial \<Rightarrow> TextSettings" where
  "merge_text t p = \<lparr>
     set_fontSize = (case part_fontSize p of Some v \<Rightarrow> v | None \<Rightarrow> set_fontSize t),
     set_textColor = (case part_strokeColor p of Some v \<Rightarrow> v | None \<Rightarrow> set_textColor t)\<rparr>"

definition merge_eraser :: "EraserSettings \<Rightarrow> SettingsPartial \<Rightarrow> EraserSettings" where
  "merge_eraser t p = \<lparr>
     set_eraserWidth = (case part_strokeWidth p of Some v \<Rightarrow> v | None \<Rightarrow> set_eraserWidth t)\<rparr>"

fun merge_settings :: "ToolSettings \<Rightarrow> ToolKey \<Rightarrow> SettingsPartial \<Rightarrow> ToolSettings" where
  "merge_settings t Key_line p = t\<lparr>ts_line := merge_stroke (ts_line t) p\<rparr>"
| "merge_settings t Key_angle p = t\<lparr>ts_angle := merge_stroke (ts_angle t) p\<rparr>"
| "merge_settings t Key_freehand p = t\<lparr>ts_freehand := merge_stroke (ts_freehand t) p\<rparr>"
| "merge_settings t Key_text p = t\<lparr>ts_text := merge_text (ts_text t) p\<rparr>"
| "merge_settings t Key_eraser p = t\<lparr>ts_eraser := merge_eraser (ts_eraser t) p\<rparr>"

text \<open>\<open>history.slice(0, historyIndex + 1)\<close> followed by the new snapshot.\<close>

definition push_history :: "DrawingState \<Rightarrow> DrawingElement list \<Rightarrow> DrawingElement list list" where
  "push_history s snapshot = take (historyIndex s + 1) (history s) @ [snapshot]"

fun drawingReducer :: "DrawingState \<Rightarrow> DrawingAction \<Rightarrow> js_error + DrawingState" where
  "drawingReducer s (SET_TOOL t) =
     Inr (s\<lparr>currentTool := t, selectedElementIds := [], editingElement := None\<rparr>)"
| "drawingReducer s (ADD_ELEMENT el) =
     (let newElements = elements s @ [el]
      in Inr (s\<lparr>elements := newElements,
                history := push_history s newElements,
                historyIndex := historyIndex s + 1\<rparr>))"
| "drawingReducer s (UPDATE_ELEMENT i p) =
     Inr (s\<lparr>elements := map (\<lambda>el. if el_id el = i then merge_element el p else el) (elements s)\<rparr>)"
| "drawingReducer s (DELETE_ELEMENTS ids) =
     (let filteredElements = filter (\<lambda>el. el_id el \<notin> set ids) (elements s)
      in Inr (s\<lparr>elements := filteredElements,
                selectedElementIds := [],
                history := push_history s filteredElements,
                historyIndex := historyIndex s + 1\<rparr>))"
| "drawingReducer s (REPLACE_ELEMENTS next) =
     Inr (s\<lparr>elements := next,
             selectedElementIds := [],
             history := push_history s next,
             historyIndex := historyIndex s + 1\<rparr>)"
| "drawingReducer s (SELECT_ELEMENTS ids) = Inr (s\<lparr>selectedElementIds := ids\<rparr>)"
| "drawingReducer s (SET_GRID_SIZE n) = Inr (s\<lparr>gridSize := max 1 n\<rparr>)"
| "drawingReducer s (TOGGLE_GRID v) =
     Inr (s\<lparr>gridVisible := (case v of Some b \<Rightarrow> b | None \<Rightarrow> \<not> gridVisible s)\<rparr>)"
| "drawingReducer s (TOGGLE_SNAP v) =
     Inr (s\<lparr>snapToGrid := (case v of Some b \<Rightarrow> b | None \<Rightarrow> \<not> snapToGrid s)\<rparr>)"
| "drawingReducer s (SET_UNITS u) = Inr (s\<lparr>units := u\<rparr>)"
| "drawingReducer s (SET_ZOOM z) = Inr (s\<lparr>zoom := max (minZoom s) (min 3 z)\<rparr>)"
| "drawingReducer s (SET_PAN offset) = Inr (s\<lparr>panOffset := offset\<rparr>)"
| "drawingReducer s (ADD_LAYER l) = Inr (s\<lparr>layers := layers s @ [l]\<rparr>)"
| "drawingReducer s (UPDATE_LAYER i p) =
     Inr (s\<lparr>layers := map (\<lambda>l. if layer_id l = i then merge_layer l p else l) (layers s)\<rparr>)"
| "drawingReducer s (DELETE_LAYER i) =
     (if length (layers s) \<le> 1 then Inr s
      else
        let layers' = filter (\<lambda>l. layer_id l \<noteq> i) (layers s);
            elements' = filter (\<lambda>el. layerId el \<noteq> i) (elements s)
        in if currentLayerId s = i
           then (case layers' of
                   [] \<Rightarrow> Inl TypeError
                 | l # _ \<Rightarrow>
                     Inr (s\<lparr>layers := layers', currentLayerId := layer_id l,
                             elements := elements'\<rparr>))
           else Inr (s\<lparr>layers := layers', currentLayerId := currentLayerId s,
                        elements := elements'\<rparr>))"
| "drawingReducer s (SET_CURRENT_LAYER i) = Inr (s\<lparr>currentLayerId := i\<rparr>)"
| "drawingReducer s UNDO =
     (if historyIndex s > 0
      then (if historyIndex s - 1 < length (history s)
            then Inr (s\<lparr>elements := history s ! (historyIndex s - 1),
                       historyIndex := historyIndex s - 1,
                       selectedElementIds := []\<rparr>)
            else Inl Elements_undefined)
      else Inr s)"
| "drawingReducer s REDO =
     (if int (historyIndex s) < int (length (history s)) - 1
      then Inr (s\<lparr>elements := history s ! (historyIndex s + 1),
                 historyIndex := historyIndex s + 1,
                 selectedElementIds := []\<rparr>)
      else Inr s)"
| "drawingReducer s SAVE_STATE =
     Inr (s\<lparr>history := push_history s (elements s),
             historyIndex := historyIndex s + 1\<rparr>)"
| "drawingReducer s (UPDATE_TOOL_SETTINGS k p) =
     Inr (s\<lparr>toolSettings := merge_settings (toolSettings s) k p\<rparr>)"
| "drawingReducer s (SET_DRAGGING d ds) =
     Inr (s\<lparr>isDragging := d,
             dragStart := (case ds of Some v \<Rightarrow> v | None \<Rightarrow> dragStart s)\<rparr>)"
| "drawingReducer s (SET_EDITING_ELEMENT i) = Inr (s\<lparr>editingElement := i\<rparr>)"
| "drawingReducer s (SET_CURRENT_PAGE p) =
     Inr (s\<lparr>currentPage := max 1 (min p (totalPages s))\<rparr>)"
| "drawingReducer s ADD_PAGE =
     Inr (s\<lparr>totalPages := totalPages s + 1, currentPage := totalPages s + 1\<rparr>)"
| "drawingReducer s (DELETE_PAGE p) =
     (if totalPages s \<le> 1 then Inr s
      else
        let newTotalPages = totalPages s - 1;
            newCurrentPage =
              (if p \<le> currentPage s \<and> currentPage s > 1 then currentPage s - 1
               else if currentPage s > newTotalPages then newTotalPages
               else currentPage s)
        in Inr (s\<lparr>totalPages := newTotalPages, currentPage := newCurrentPage\<rparr>))"
| "drawingReducer s (SET_MIN_ZOOM z) = Inr (s\<lparr>minZoom := min 1 (max (1 / 10) z)\<rparr>)"
| "drawingReducer s (SAVE_PROJECT n) = Inr s"
| "drawingReducer s (LOAD_PROJECT i) = Inr s"
| "drawingReducer s (SET_PROJECT_NAME n) = Inr s"
| "drawingReducer s CLEAR_CANVAS = Inr s"

text \<open>Dispatching a sequence of actions; a thrown error ends it.\<close>

fun dispatch_all :: "DrawingState \<Rightarrow> DrawingAction list \<Rightarrow> js_error + DrawingState" where
  "dispatch_all s [] = Inr s"
| "dispatch_all s (a # as) =
     (case drawingReducer s a of Inl e \<Rightarrow> Inl e | Inr s' \<Rightarrow> dispatch_all s' as)"

text \<open>The actions that create an undo checkpoint.\<close>

fun is_significant :: "DrawingAction \<Rightarrow> bool" where
  "is_significant (ADD_ELEMENT el) = True"
| "is_significant (DELETE_ELEMENTS ids) = True"
| "is_significant (REPLACE_ELEMENTS els) = True"
| "is_significant SAVE_STATE = True"
| "is_significant a = False"

text \<open>
  \<open>at_tip\<close>: the cursor is on the last snapshot and the element list is that snapshot.
\<close>

definition at_tip :: "DrawingState \<Rightarrow> bool" where
  "at_tip s \<longleftrightarrow>
     length (history s) = historyIndex s + 1 \<and> elements s = history s ! historyIndex s"

text \<open>Observations of the outcome of a run, for statements about concrete runs.\<close>

fun history_shape :: "js_error + DrawingState \<Rightarrow> (nat \<times> nat) option" where
  "history_shape (Inl e) = None"
| "history_shape (Inr s) = Some (length (history s), historyIndex s)"

fun page_shape :: "js_error + DrawingState \<Rightarrow> (int \<times> int) option" where
  "page_shape (Inl e) = None"
| "page_shape (Inr s) = Some (totalPages s, currentPage s)"

fun elements_of :: "js_error + DrawingState \<Rightarrow> DrawingElement list option" where
  "elements_of (Inl e) = None"
| "elements_of (Inr s) = Some (elements s)"

section \<open>Viewport (components/DrawingCanvas)\<close>

definition CANVAS_PADDING :: real where
  "CANVAS_PADDING = 50"

record Bounds =
  b_x :: real
  b_y :: real
  b_width :: real
  b_height :: real

definition getPageBounds :: "DrawingState \<Rightarrow> int \<Rightarrow> Bounds" where
  "getPageBounds s pageNumber = \<lparr>
     b_x = CANVAS_PADDING,
     b_y = CANVAS_PADDING + (of_int pageNumber - 1) * (pageHeight s + PAGE_MARGIN),
     b_width = pageWidth s,
     b_height = pageHeight s\<rparr>"

text \<open>\<open>getContentSize\<close> returns \<open>(totalWidth, totalHeight)\<close>.\<close>

definition getContentSize :: "DrawingState \<Rightarrow> real \<times> real" where
  "getContentSize s =
     (CANVAS_PADDING * 2 + pageWidth s,
      CANVAS_PADDING * 2 + of_int (totalPages s) * pageHeight s
        + (of_int (totalPages s) - 1) * PAGE_MARGIN)"

text \<open>
  The result of \<open>getBoundingClientRect()\<close> on the container or on the canvas; a ref
  whose \<open>current\<close> is null, before the canvas is mounted, is \<open>None\<close>.
\<close>

record DOMRect =
  rect_left :: real
  rect_top :: real
  rect_width :: real
  rect_height :: real

record MouseEvent =
  clientX :: real
  clientY :: real

definition clampPan :: "DrawingState \<Rightarrow> DOMRect option \<Rightarrow> Point \<Rightarrow> Point" where
  "clampPan s container pan =
     (case container of
        None \<Rightarrow> pan
      | Some rect \<Rightarrow>
          let totalWidth = fst (getContentSize s);
              totalHeight = snd (getContentSize s);
              viewW = rect_width rect / zoom s;
              viewH = rect_height rect / zoom s;
              clampedX =
                (if totalWidth \<le> viewW then (viewW - totalWidth) / 2
                 else max (- (totalWidth - viewW)) (min 0 (px pan)));
              clampedY =
                (if totalHeight \<le> viewH then (viewH - totalHeight) / 2
                 else max (- (totalHeight - viewH)) (min 0 (py pan)))
          in \<lparr>px = clampedX, py = clampedY\<rparr>)"

definition in_bounds :: "Point \<Rightarrow> Bounds \<Rightarrow> bool" where
  "in_bounds point bounds \<longleftrightarrow>
     px point \<ge> b_x bounds \<and> px point \<le> b_x bounds + b_width bounds \<and>
     py point \<ge> b_y bounds \<and> py point \<le> b_y bounds + b_height bounds"

text \<open>The loop over the pages \<open>1 .. totalPages\<close> returns the first page that holds the point.\<close>

definition getPageAtPoint :: "DrawingState \<Rightarrow> Point \<Rightarrow> int option" where
  "getPageAtPoint s point =
     List.find (\<lambda>page. in_bounds point (getPageBounds s page)) [1..totalPages s]"

definition clipToPageBounds :: "DrawingState \<Rightarrow> Point \<Rightarrow> Point" where
  "clipToPageBounds s point =
     (case getPageAtPoint s point of
        None \<Rightarrow> point
      | Some pageNumber \<Rightarrow>
          let bounds = getPageBounds s pageNumber
          in \<lparr>px = max (b_x bounds) (min (b_x bounds + b_width bounds) (px point)),
              py = max (b_y bounds) (min (b_y bounds + b_height bounds) (py point))\<rparr>)"

text \<open>A point lies on the document when some page's rectangle holds it.\<close>

definition on_some_page :: "DrawingState \<Rightarrow> Point \<Rightarrow> bool" where
  "on_some_page s point \<longleftrightarrow>
     list_ex (\<lambda>page. in_bounds point (getPageBounds s page)) [1..totalPages s]"

text \<open>
  \<open>snapToGrid\<close> of utils/grid: the grid is 1 mm whatever \<open>gridSize\<close> is.
  \<open>Math.round\<close> rounds a half upwards, as \<open>round\<close> does.
\<close>

definition snapToGrid_point :: "Point \<Rightarrow> real \<Rightarrow> Point" where
  "snapToGrid_point point gridSize' =
     (let mmToPx = 3779527559 / 1000000000;
          gridSizePx = mmToPx
      in \<lparr>px = of_int (round (px point / gridSizePx)) * gridSizePx,
          py = of_int (round (py point / gridSizePx)) * gridSizePx\<rparr>)"

text \<open>The point a tool's handler receives for a mouse event.\<close>

definition getCanvasPoint :: "DrawingState \<Rightarrow> DOMRect option \<Rightarrow> MouseEvent \<Rightarrow> Point" where
  "getCanvasPoint s canvas e =
     (case canvas of
        None \<Rightarrow> \<lparr>px = 0, py = 0\<rparr>
      | Some rect \<Rightarrow>
          let x = (clientX e - rect_left rect) / zoom s - px (panOffset s);
              y = (clientY e - rect_top rect) / zoom s - py (panOffset s)
          in if snapToGrid s \<and> currentTool s \<noteq> Tool_freehand
             then (case getPageAtPoint s \<lparr>px = x, py = y\<rparr> of
                     None \<Rightarrow> \<lparr>px = x, py = y\<rparr>
                   | Some pageNumber \<Rightarrow> snapToGrid_point \<lparr>px = x, py = y\<rparr> (gridSize s))
             else \<lparr>px = x, py = y\<rparr>)"

section \<open>Tools (components/tools)\<close>

text \<open>
  The canvas owns \<open>isDrawing\<close> and \<open>currentElement\<close> and hands them to the mounted tool;
  \<open>clickCount\<close> is the angle tool's own state. A handler receives the point that
  \<open>getCanvasPoint\<close> computed for the event, reads the document state of the last render
  and returns the new tool state with the actions it dispatched. A pointer-down also
  carries \<open>now\<close>, the decimal text of \<open>Date.now()\<close>, from which the draft's id is made.

  Every tool creates its draft with at least one point. Reading \<open>points[0]\<close> or
  \<open>points[1]\<close> past the end of a draft gives \<open>undefined\<close> in JavaScript, and the handler
  throws a TypeError when it reads a coordinate of it; the model returns \<open>TypeError\<close>
  at the read.
\<close>

record ToolState =
  isDrawing :: bool
  currentElement :: "DrawingElement option"
  clickCount :: nat

datatype PointerEvent = MouseDown Point string | MouseMove Point | MouseUp

type_synonym handler_result = "js_error + (ToolState \<times> DrawingAction list)"

definition new_draft :: "string \<Rightarrow> ElementType \<Rightarrow> Point list \<Rightarrow> StrokeSettings \<Rightarrow> string
    \<Rightarrow> DrawingElement" where
  "new_draft ident ty pts settings layer = \<lparr>
     el_id = ident,
     el_type = ty,
     points = pts,
     style = \<lparr>strokeColor = set_strokeColor settings, strokeWidth = set_strokeWidth settings,
              fillColor = None\<rparr>,
     layerId = layer,
     el_text = None,
     fontSize = None,
     measurements = None,
     selected = None\<rparr>"

subsection \<open>LineTool\<close>

definition line_handleMouseDown :: "DrawingState \<Rightarrow> ToolState \<Rightarrow> Point \<Rightarrow> string \<Rightarrow> handler_result" where
  "line_handleMouseDown s ts point now =
     (case getPageAtPoint s point of
        None \<Rightarrow> Inr (ts, [])
      | Some page \<Rightarrow>
          let clippedPoint = clipToPageBounds s point;
              newElement = new_draft (''line-'' @ now) Type_line [clippedPoint, clippedPoint]
                             (ts_line (toolSettings s)) (currentLayerId s)
          in Inr (ts\<lparr>currentElement := Some newElement, isDrawing := True\<rparr>, []))"

definition line_handleMouseMove :: "DrawingState \<Rightarrow> ToolState \<Rightarrow> Point \<Rightarrow> handler_result" where
  "line_handleMouseMove s ts point =
     (case currentElement ts of
        None \<Rightarrow> Inr (ts, [])
      | Some el \<Rightarrow>
          if \<not> isDrawing ts then Inr (ts, [])
          else
            let clippedPoint = clipToPageBounds s point
            in (case points el of
                  [] \<Rightarrow> Inl TypeError
                | p0 # rest \<Rightarrow>
                    let updatedElement = el\<lparr>
                          points := [p0, clippedPoint],
                          measurements := Some \<lparr>
                            m_length = Some (sqrt ((px clippedPoint - px p0)\<^sup>2
                                                   + (py clippedPoint - py p0)\<^sup>2)),
                            m_radius = None, m_angle = None\<rparr>\<rparr>
                    in Inr (ts\<lparr>currentElement := Some updatedElement\<rparr>, [])))"

definition line_handleMouseUp :: "ToolState \<Rightarrow> handler_result" where
  "line_handleMouseUp ts =
     (case currentElement ts of
        None \<Rightarrow> Inr (ts, [])
      | Some el \<Rightarrow>
          if isDrawing ts
          then Inr (ts\<lparr>currentElement := None, isDrawing := False\<rparr>, [ADD_ELEMENT el])
          else Inr (ts, []))"

fun LineTool :: "DrawingState \<Rightarrow> ToolState \<Rightarrow> PointerEvent \<Rightarrow> handler_result" where
  "LineTool s ts (MouseDown point now) = line_handleMouseDown s ts point now"
| "LineTool s ts (MouseMove point) = line_handleMouseMove s ts point"
| "LineTool s ts MouseUp = line_handleMouseUp ts"

subsection \<open>FreehandTool\<close>

definition freehand_handleMouseDown :: "DrawingState \<Rightarrow> ToolState \<Rightarrow> Point \<Rightarrow> string \<Rightarrow> handler_result" where
  "freehand_handleMouseDown s ts point now =
     (case getPageAtPoint s point of
        None \<Rightarrow> Inr (ts, [])
      | Some page \<Rightarrow>
          let clippedPoint = clipToPageBounds s point;
              newElement = new_draft (''freehand-'' @ now) Type_freehand [clippedPoint]
                             (ts_freehand (toolSettings s)) (currentLayerId s)
          in Inr (ts\<lparr>currentElement := Some newElement, isDrawing := True\<rparr>, []))"

definition freehand_handleMouseMove :: "DrawingState \<Rightarrow> ToolState \<Rightarrow> Point \<Rightarrow> handler_result" where
  "freehand_handleMouseMove s ts point =
     (case currentElement ts of
        None \<Rightarrow> Inr (ts, [])
      | Some el \<Rightarrow>
          if \<not> isDrawing ts then Inr (ts, [])
          else
            let clippedPoint = clipToPageBounds s point
            in if points el = [] then Inl TypeError
               else
                 let lastPoint = last (points el);
                     distance = sqrt ((px clippedPoint - px lastPoint)\<^sup>2
                                      + (py clippedPoint - py lastPoint)\<^sup>2)
                 in if distance > 2
                    then Inr (ts\<lparr>currentElement :=
                                  Some (el\<lparr>points := points el @ [clippedPoint]\<rparr>)\<rparr>, [])
                    else Inr (ts, []))"

definition freehand_handleMouseUp :: "ToolState \<Rightarrow> handler_result" where
  "freehand_handleMouseUp ts =
     (case currentElement ts of
        None \<Rightarrow> Inr (ts, [])
      | Some el \<Rightarrow>
          if isDrawing ts \<and> length (points el) > 1
          then Inr (ts\<lparr>currentElement := None, isDrawing := False\<rparr>, [ADD_ELEMENT el])
          else Inr (ts, []))"

fun FreehandTool :: "DrawingState \<Rightarrow> ToolState \<Rightarrow> PointerEvent \<Rightarrow> handler_result" where
  "FreehandTool s ts (MouseDown point now) = freehand_handleMouseDown s ts point now"
| "FreehandTool s ts (MouseMove point) = freehand_handleMouseMove s ts point"
| "FreehandTool s ts MouseUp = freehand_handleMouseUp ts"

subsection \<open>AngleTool\<close>

text \<open>
  \<open>Math.atan2\<close> is the platform's; it is read as the mathematical function, the angle
  of the vector \<open>(x, y)\<close> in \<open>(-\<pi>, \<pi>]\<close>, and 0 at the origin.
\<close>

definition atan2 :: "real \<Rightarrow> real \<Rightarrow> real" where
  "atan2 y x =
     (if x > 0 then arctan (y / x)
      else if x < 0 then (if y \<ge> 0 then arctan (y / x) + pi else arctan (y / x) - pi)
      else if y > 0 then pi / 2
      else if y < 0 then - (pi / 2)
      else 0)"

text \<open>
  The sweep from the baseline to the end point around the centre, as the third click and
  the preview both compute it in line.
\<close>

definition angle_sweep :: "Point \<Rightarrow> Point \<Rightarrow> Point \<Rightarrow> real" where
  "angle_sweep baseline center point =
     (let baselineAngle = atan2 (py baseline - py center) (px baseline - px center);
          endpointAngle = atan2 (py point - py center) (px point - px center);
          angleDiff = endpointAngle - baselineAngle
      in if angleDiff < 0 then angleDiff + 2 * pi else angleDiff)"

definition angle_handleMouseDown :: "DrawingState \<Rightarrow> ToolState \<Rightarrow> Point \<Rightarrow> string \<Rightarrow> handler_result" where
  "angle_handleMouseDown s ts point now =
     (case getPageAtPoint s point of
        None \<Rightarrow> Inr (ts, [])
      | Some page \<Rightarrow>
          let clippedPoint = clipToPageBounds s point
          in if clickCount ts = 0
             then
               let newElement = new_draft (''angle-'' @ now) Type_angle [clippedPoint]
                                  (ts_angle (toolSettings s)) (currentLayerId s)
               in Inr (ts\<lparr>currentElement := Some newElement, clickCount := 1\<rparr>, [])
             else if clickCount ts = 1
             then (case currentElement ts of
                     None \<Rightarrow> Inr (ts, [])
                   | Some el \<Rightarrow>
                       Inr (ts\<lparr>currentElement := Some (el\<lparr>points := points el @ [clippedPoint]\<rparr>),
                              clickCount := 2, isDrawing := True\<rparr>, []))
             else if clickCount ts = 2
             then (case currentElement ts of
                     None \<Rightarrow> Inr (ts, [])
                   | Some el \<Rightarrow>
                       (case points el of
                          baseline # center # rest \<Rightarrow>
                            let finalElement = el\<lparr>
                                  points := points el @ [clippedPoint],
                                  measurements := Some \<lparr>m_length = None, m_radius = None,
                                    m_angle = Some (angle_sweep baseline center point)\<rparr>\<rparr>
                            in Inr (ts\<lparr>currentElement := None, isDrawing := False,
                                      clickCount := 0\<rparr>, [ADD_ELEMENT finalElement])
                        | _ \<Rightarrow> Inl TypeError))
             else Inr (ts, []))"

definition angle_handleMouseMove :: "DrawingState \<Rightarrow> ToolState \<Rightarrow> Point \<Rightarrow> handler_result" where
  "angle_handleMouseMove s ts point =
     (case currentElement ts of
        None \<Rightarrow> Inr (ts, [])
      | Some el \<Rightarrow>
          let clippedPoint = clipToPageBounds s point
          in if clickCount ts = 1
             then (case points el of
                     [] \<Rightarrow> Inl TypeError
                   | p0 # rest \<Rightarrow>
                       Inr (ts\<lparr>currentElement := Some (el\<lparr>points := [p0, clippedPoint]\<rparr>)\<rparr>, []))
             else if clickCount ts = 2 \<and> isDrawing ts
             then (case points el of
                     baseline # center # rest \<Rightarrow>
                       let updatedElement = el\<lparr>
                             points := [baseline, center, clippedPoint],
                             measurements := Some \<lparr>m_length = None, m_radius = None,
                               m_angle = Some (angle_sweep baseline center clippedPoint)\<rparr>\<rparr>
                       in Inr (ts\<lparr>currentElement := Some updatedElement\<rparr>, [])
                   | _ \<Rightarrow> Inl TypeError)
             else Inr (ts, []))"

text \<open>The angle tool listens to pointer-down and pointer-move only.\<close>

fun AngleTool :: "DrawingState \<Rightarrow> ToolState \<Rightarrow> PointerEvent \<Rightarrow> handler_result" where
  "AngleTool s ts (MouseDown point now) = angle_handleMouseDown s ts point now"
| "AngleTool s ts (MouseMove point) = angle_handleMouseMove s ts point"
| "AngleTool s ts MouseUp = Inr (ts, [])"

subsection \<open>EraserTool\<close>

definition isPointNearLine :: "Point \<Rightarrow> Point \<Rightarrow> Point \<Rightarrow> real \<Rightarrow> bool" where
  "isPointNearLine point lineStart lineEnd threshold =
     (let A = px point - px lineStart;
          B = py point - py lineStart;
          C = px lineEnd - px lineStart;
          D = py lineEnd - py lineStart;
          dot = A * C + B * D;
          lenSq = C * C + D * D
      in if lenSq = 0 then sqrt (A * A + B * B) \<le> threshold
         else
           let param = dot / lenSq;
               xx = (if param < 0 then px lineStart
                     else if param > 1 then px lineEnd
                     else px lineStart + param * C);
               yy = (if param < 0 then py lineStart
                     else if param > 1 then py lineEnd
                     else py lineStart + param * D);
               dx = px point - xx;
               dy = py point - yy
           in sqrt (dx * dx + dy * dy) \<le> threshold)"

text \<open>The body of the \<open>forEach\<close> of \<open>findElementsToErase\<close>: whether one element is hit.\<close>

definition shouldErase :: "DrawingState \<Rightarrow> Point \<Rightarrow> DrawingElement \<Rightarrow> bool" where
  "shouldErase s point element =
     (let eraserSize = set_eraserWidth (ts_eraser (toolSettings s)) / 2
      in case List.find (\<lambda>l. layer_id l = layerId element) (layers s) of
           None \<Rightarrow> False
         | Some layer \<Rightarrow>
             if \<not> visible layer \<or> locked layer then False
             else
               (case el_type element of
                  Type_line \<Rightarrow>
                    (case points element of
                       p0 # p1 # rest \<Rightarrow> isPointNearLine point p0 p1 eraserSize
                     | _ \<Rightarrow> False)
                | Type_angle \<Rightarrow>
                    (case points element of
                       baseline # center # endpoint # rest \<Rightarrow>
                         isPointNearLine point baseline center eraserSize \<or>
                         isPointNearLine point center endpoint eraserSize
                     | _ \<Rightarrow> False)
                | Type_freehand \<Rightarrow>
                    list_ex (\<lambda>(a, b). isPointNearLine point a b eraserSize)
                      (zip (points element) (tl (points element)))
                | Type_text \<Rightarrow>
                    (case (points element, el_text element) of
                       (textPoint # rest, Some txt) \<Rightarrow>
                         if txt = [] then False
                         else
                           let fSize = (case fontSize element of
                                          None \<Rightarrow> 14
                                        | Some f \<Rightarrow> if f = 0 then 14 else f);
                               textWidth = of_nat (length txt) * fSize * (6 / 10)
                           in px point \<ge> px textPoint - eraserSize \<and>
                              px point \<le> px textPoint + textWidth + eraserSize \<and>
                              py point \<ge> py textPoint - eraserSize \<and>
                              py point \<le> py textPoint + fSize + eraserSize
                     | _ \<Rightarrow> False)))"

definition findElementsToErase :: "DrawingState \<Rightarrow> Point \<Rightarrow> string list" where
  "findElementsToErase s point = map el_id (filter (shouldErase s point) (elements s))"

definition eraser_handleMouseDown :: "DrawingState \<Rightarrow> ToolState \<Rightarrow> Point \<Rightarrow> handler_result" where
  "eraser_handleMouseDown s ts point =
     (case getPageAtPoint s point of
        None \<Rightarrow> Inr (ts, [])
      | Some page \<Rightarrow>
          let elementsToErase = findElementsToErase s point
          in Inr (ts\<lparr>isDrawing := True\<rparr>,
                  if length elementsToErase > 0 then [DELETE_ELEMENTS elementsToErase] else []))"

definition eraser_handleMouseMove :: "DrawingState \<Rightarrow> ToolState \<Rightarrow> Point \<Rightarrow> handler_result" where
  "eraser_handleMouseMove s ts point =
     (if \<not> isDrawing ts then Inr (ts, [])
      else
        (case getPageAtPoint s point of
           None \<Rightarrow> Inr (ts, [])
         | Some page \<Rightarrow>
             let elementsToErase = findElementsToErase s point
             in Inr (ts, if length elementsToErase > 0 then [DELETE_ELEMENTS elementsToErase]
                         else [])))"

definition eraser_handleMouseUp :: "ToolState \<Rightarrow> handler_result" where
  "eraser_handleMouseUp ts =
     Inr (ts\<lparr>isDrawing := False\<rparr>, if isDrawing ts then [SAVE_STATE] else [])"

fun EraserTool :: "DrawingState \<Rightarrow> ToolState \<Rightarrow> PointerEvent \<Rightarrow> handler_result" where
  "EraserTool s ts (MouseDown point now) = eraser_handleMouseDown s ts point"
| "EraserTool s ts (MouseMove point) = eraser_handleMouseMove s ts point"
| "EraserTool s ts MouseUp = eraser_handleMouseUp ts"

subsection \<open>Running a tool over a sequence of pointer events\<close>

text \<open>
  Each event runs the mounted tool's handler on the current document and tool state,
  and the reducer applies the dispatched actions before the next event. The result
  carries the final tool state, the final document state and all actions dispatched.
\<close>

type_synonym run_result = "js_error + (ToolState \<times> DrawingState \<times> DrawingAction list)"

fun run_events :: "(DrawingState \<Rightarrow> ToolState \<Rightarrow> PointerEvent \<Rightarrow> handler_result)
    \<Rightarrow> ToolState \<Rightarrow> DrawingState \<Rightarrow> PointerEvent list \<Rightarrow> run_result" where
  "run_events tool ts s [] = Inr (ts, s, [])"
| "run_events tool ts s (ev # evs) =
     (case tool s ts ev of
        Inl e \<Rightarrow> Inl e
      | Inr (ts', acts) \<Rightarrow>
          (case dispatch_all s acts of
             Inl e \<Rightarrow> Inl e
           | Inr s' \<Rightarrow>
               (case run_events tool ts' s' evs of
                  Inl e \<Rightarrow> Inl e
                | Inr (ts'', s'', trace) \<Rightarrow> Inr (ts'', s'', acts @ trace))))"

fun final_tool :: "run_result \<Rightarrow> ToolState option" where
  "final_tool (Inl e) = None"
| "final_tool (Inr (ts, s, trace)) = Some ts"

fun final_state :: "run_result \<Rightarrow> js_error + DrawingState" where
  "final_state (Inl e) = Inl e"
| "final_state (Inr (ts, s, trace)) = Inr s"

fun dispatched :: "run_result \<Rightarrow> DrawingAction list option" where
  "dispatched (Inl e) = None"
| "dispatched (Inr (ts, s, trace)) = Some trace"

fun then_dispatch :: "js_error + DrawingState \<Rightarrow> DrawingAction list \<Rightarrow> js_error + DrawingState" where
  "then_dispatch (Inl e) acts = Inl e"
| "then_dispatch (Inr s) acts = dispatch_all s acts"

definition idle :: ToolState where
  "idle = \<lparr>isDrawing = False, currentElement = None, clickCount = 0\<rparr>"

text \<open>An eraser gesture: pointer-down, pointer-moves, pointer-up.\<close>

definition eraser_gesture :: "Point \<Rightarrow> Point list \<Rightarrow> PointerEvent list" where
  "eraser_gesture p ps = MouseDown p [] # map MouseMove ps @ [MouseUp]"

section \<open>Serialization (utils/serialization)\<close>

text \<open>
  \<open>JSON.stringify\<close> and \<open>JSON.parse\<close> are the platform's. The model works on the
  JSON value a text denotes: writing a value and parsing the text gives the value back,
  and a text that is not JSON parses to \<open>None\<close> (a SyntaxError). An object is its list
  of properties; a property read is \<open>map_of\<close>, and reading a property of a value that
  is not an object gives \<open>undefined\<close> (\<open>None\<close>).
\<close>

datatype json =
    JNull
  | JBool bool
  | JNum real
  | JStr string
  | JArr "json list"
  | JObj "(string \<times> json) list"

datatype parse_error =
    SyntaxError
  | Root_not_array
  | Invalid_element nat
  | Missing_id nat
  | Invalid_type nat
  | Missing_points nat
  | Invalid_point nat nat
  | Invalid_style nat
  | Missing_layerId nat

fun get_prop :: "json \<Rightarrow> string \<Rightarrow> json option" where
  "get_prop (JObj kvs) k = map_of kvs k"
| "get_prop v k = None"

text \<open>\<open>typeof v === 'object' && v !== null\<close>: objects and arrays.\<close>

fun is_object :: "json \<Rightarrow> bool" where
  "is_object (JObj kvs) = True"
| "is_object (JArr vs) = True"
| "is_object v = False"

fun is_string :: "json option \<Rightarrow> bool" where
  "is_string (Some (JStr v)) = True"
| "is_string v = False"

fun is_number :: "json option \<Rightarrow> bool" where
  "is_number (Some (JNum v)) = True"
| "is_number v = False"

text \<open>JavaScript truthiness; an absent property is \<open>undefined\<close>, which is falsy.\<close>

fun truthy :: "json option \<Rightarrow> bool" where
  "truthy None = False"
| "truthy (Some JNull) = False"
| "truthy (Some (JBool b)) = b"
| "truthy (Some (JNum n)) = (n \<noteq> 0)"
| "truthy (Some (JStr v)) = (v \<noteq> [])"
| "truthy (Some (JArr vs)) = True"
| "truthy (Some (JObj kvs)) = True"

fun type_name :: "ElementType \<Rightarrow> string" where
  "type_name Type_line = ''line''"
| "type_name Type_angle = ''angle''"
| "type_name Type_freehand = ''freehand''"
| "type_name Type_text = ''text''"

text \<open>What \<open>JSON.stringify\<close> writes for an element: absent optional fields are left out.\<close>

definition opt_field :: "string \<Rightarrow> ('a \<Rightarrow> json) \<Rightarrow> 'a option \<Rightarrow> (string \<times> json) list" where
  "opt_field k f v = (case v of None \<Rightarrow> [] | Some a \<Rightarrow> [(k, f a)])"

definition point_json :: "Point \<Rightarrow> json" where
  "point_json p = JObj [(''x'', JNum (px p)), (''y'', JNum (py p))]"

definition style_json :: "Style \<Rightarrow> json" where
  "style_json st =
     JObj ([(''strokeColor'', JStr (strokeColor st)), (''strokeWidth'', JNum (strokeWidth st))]
           @ opt_field ''fillColor'' JStr (fillColor st))"

definition measurements_json :: "Measurements \<Rightarrow> json" where
  "measurements_json m =
     JObj (opt_field ''length'' JNum (m_length m) @ opt_field ''radius'' JNum (m_radius m)
           @ opt_field ''angle'' JNum (m_angle m))"

definition element_json :: "DrawingElement \<Rightarrow> json" where
  "element_json el =
     JObj ([(''id'', JStr (el_id el)),
            (''type'', JStr (type_name (el_type el))),
            (''points'', JArr (map point_json (points el))),
            (''style'', style_json (style el)),
            (''layerId'', JStr (layerId el))]
           @ opt_field ''text'' JStr (el_text el)
           @ opt_field ''fontSize'' JNum (fontSize el)
           @ opt_field ''measurements'' measurements_json (measurements el)
           @ opt_field ''selected'' JBool (selected el))"

definition serializeDrawing :: "DrawingElement list \<Rightarrow> json" where
  "serializeDrawing els = JArr (map element_json els)"

text \<open>The inner \<open>forEach\<close> over the points: the first offending point throws.\<close>

fun check_points :: "nat \<Rightarrow> nat \<Rightarrow> json list \<Rightarrow> parse_error option" where
  "check_points idx pIdx [] = None"
| "check_points idx pIdx (p # ps) =
     (if \<not> is_object p \<or> \<not> is_number (get_prop p ''x'') \<or> \<not> is_number (get_prop p ''y'')
      then Some (Invalid_point idx pIdx)
      else check_points idx (pIdx + 1) ps)"

text \<open>The body of the outer \<open>forEach\<close>: the checks of one entry, in the order of the source.\<close>

definition check_element :: "nat \<Rightarrow> json \<Rightarrow> parse_error option" where
  "check_element idx el =
     (if \<not> is_object el then Some (Invalid_element idx)
      else if \<not> is_string (get_prop el ''id'') then Some (Missing_id idx)
      else if get_prop el ''type'' \<notin> set (map (Some \<circ> JStr) [''line'', ''angle'', ''freehand'', ''text''])
      then Some (Invalid_type idx)
      else
        (case get_prop el ''points'' of
           Some (JArr ps) \<Rightarrow>
             (case check_points idx 0 ps of
                Some e \<Rightarrow> Some e
              | None \<Rightarrow>
                  (case get_prop el ''style'' of
                     None \<Rightarrow> Some (Invalid_style idx)
                   | Some st \<Rightarrow>
                       if \<not> truthy (Some st)
                          \<or> \<not> is_string (get_prop st ''strokeColor'')
                          \<or> \<not> is_number (get_prop st ''strokeWidth'')
                       then Some (Invalid_style idx)
                       else if \<not> is_string (get_prop el ''layerId'')
                       then Some (Missing_layerId idx)
                       else None))
         | _ \<Rightarrow> Some (Missing_points idx)))"

fun check_elements :: "nat \<Rightarrow> json list \<Rightarrow> parse_error option" where
  "check_elements idx [] = None"
| "check_elements idx (el # els) =
     (case check_element idx el of
        Some e \<Rightarrow> Some e
      | None \<Rightarrow> check_elements (idx + 1) els)"

text \<open>
  \<open>deserializeDrawing\<close> takes the outcome of \<open>JSON.parse\<close> on its argument and returns
  the parsed entries themselves (\<open>data as SerializedProject\<close>).
\<close>

definition deserializeDrawing :: "json option \<Rightarrow> parse_error + json list" where
  "deserializeDrawing parsed =
     (case parsed of
        None \<Rightarrow> Inl SyntaxError
      | Some (JArr els) \<Rightarrow>
          (case check_elements 0 els of Some e \<Rightarrow> Inl e | None \<Rightarrow> Inr els)
      | Some other \<Rightarrow> Inl Root_not_array)"

text \<open>
  Reading a parsed entry at the type \<open>DrawingElement\<close>: the typed fields are read from
  the properties of the same names; an absent optional property is an absent field.
\<close>

fun parse_type :: "json option \<Rightarrow> ElementType option" where
  "parse_type (Some (JStr v)) =
     (if v = ''line'' then Some Type_line
      else if v = ''angle'' then Some Type_angle
      else if v = ''freehand'' then Some Type_freehand
      else if v = ''text'' then Some Type_text
      else None)"
| "parse_type v = None"

fun as_string :: "json option \<Rightarrow> string option" where
  "as_string (Some (JStr v)) = Some v"
| "as_string v = None"

fun as_number :: "json option \<Rightarrow> real option" where
  "as_number (Some (JNum v)) = Some v"
| "as_number v = None"

fun as_bool :: "json option \<Rightarrow> bool option" where
  "as_bool (Some (JBool v)) = Some v"
| "as_bool v = None"

definition as_point :: "json \<Rightarrow> Point option" where
  "as_point v =
     (case (as_number (get_prop v ''x''), as_number (get_prop v ''y'')) of
        (Some a, Some b) \<Rightarrow> Some \<lparr>px = a, py = b\<rparr>
      | _ \<Rightarrow> None)"

fun as_points :: "json list \<Rightarrow> Point list option" where
  "as_points [] = Some []"
| "as_points (v # vs) =
     (case (as_point v, as_points vs) of
        (Some p, Some ps) \<Rightarrow> Some (p # ps)
      | _ \<Rightarrow> None)"

definition as_style :: "json \<Rightarrow> Style option" where
  "as_style v =
     (case (as_string (get_prop v ''strokeColor''), as_number (get_prop v ''strokeWidth'')) of
        (Some c, Some w) \<Rightarrow>
          Some \<lparr>strokeColor = c, strokeWidth = w, fillColor = as_string (get_prop v ''fillColor'')\<rparr>
      | _ \<Rightarrow> None)"

definition as_measurements :: "json option \<Rightarrow> Measurements option" where
  "as_measurements v =
     (case v of
        Some (JObj kvs) \<Rightarrow>
          Some \<lparr>m_length = as_number (map_of kvs ''length''),
                m_radius = as_number (map_of kvs ''radius''),
                m_angle = as_number (map_of kvs ''angle'')\<rparr>
      | _ \<Rightarrow> None)"

definition as_element :: "json \<Rightarrow> DrawingElement option" where
  "as_element v =
     (case (as_string (get_prop v ''id''), parse_type (get_prop v ''type''), get_prop v ''points'',
            get_prop v ''style'', as_string (get_prop v ''layerId'')) of
        (Some i, Some ty, Some (JArr ps), Some st, Some lid) \<Rightarrow>
          (case (as_points ps, as_style st) of
             (Some pts, Some sty) \<Rightarrow>
               Some \<lparr>el_id = i, el_type = ty, points = pts, style = sty, layerId = lid,
                     el_text = as_string (get_prop v ''text''),
                     fontSize = as_number (get_prop v ''fontSize''),
                     measurements = as_measurements (get_prop v ''measurements''),
                     selected = as_bool (get_prop v ''selected'')\<rparr>
           | _ \<Rightarrow> None)
      | _ \<Rightarrow> None)"

text \<open>
  The serialized document schema in the words of the specification: the root is an array
  and each entry is an object with string \<open>id\<close>, \<open>type\<close> among line, angle, freehand and
  text, an array \<open>points\<close> of \<open>{x: number, y: number}\<close>, a \<open>style\<close> object with string
  \<open>strokeColor\<close> and numeric \<open>strokeWidth\<close>, and string \<open>layerId\<close>.
\<close>

fun schema_point :: "json \<Rightarrow> bool" where
  "schema_point (JObj kvs) \<longleftrightarrow>
     is_number (map_of kvs ''x'') \<and> is_number (map_of kvs ''y'')"
| "schema_point v \<longleftrightarrow> False"

fun schema_points :: "json option \<Rightarrow> bool" where
  "schema_points (Some (JArr ps)) \<longleftrightarrow> list_all schema_point ps"
| "schema_points v \<longleftrightarrow> False"

fun schema_style :: "json option \<Rightarrow> bool" where
  "schema_style (Some (JObj kvs)) \<longleftrightarrow>
     is_string (map_of kvs ''strokeColor'') \<and> is_number (map_of kvs ''strokeWidth'')"
| "schema_style v \<longleftrightarrow> False"

fun schema_element :: "json \<Rightarrow> bool" where
  "schema_element (JObj kvs) \<longleftrightarrow>
     is_string (map_of kvs ''id'')
     \<and> parse_type (map_of kvs ''type'') \<noteq> None
     \<and> schema_points (map_of kvs ''points'')
     \<and> schema_style (map_of kvs ''style'')
     \<and> is_string (map_of kvs ''layerId'')"
| "schema_element v \<longleftrightarrow> False"

fun schema_document :: "json \<Rightarrow> bool" where
  "schema_document (JArr els) \<longleftrightarrow> list_all schema_element els"
| "schema_document v \<longleftrightarrow> False"

section \<open>Example inputs\<close>

definition example_line :: DrawingElement where
  "example_line = \<lparr>
     el_id = ''line-1'', el_type = Type_line,
     points = [\<lparr>px = 100, py = 100\<rparr>, \<lparr>px = 200, py = 100\<rparr>],
     style = \<lparr>strokeColor = ''#ffffff'', strokeWidth = 2, fillColor = None\<rparr>,
     layerId = ''layer-1'', el_text = None, fontSize = None,
     measurements = Some \<lparr>m_length = Some 100, m_radius = None, m_angle = None\<rparr>,
     selected = None\<rparr>"

text \<open>The line tool and the freehand tool selected, snapping switched off.\<close>

definition line_tool_state :: DrawingState where
  "line_tool_state = initialState\<lparr>currentTool := Tool_line, snapToGrid := False\<rparr>"

definition freehand_tool_state :: DrawingState where
  "freehand_tool_state = initialState\<lparr>currentTool := Tool_freehand, snapToGrid := False\<rparr>"

text \<open>The example line drawn, snapping switched off, then the eraser selected.\<close>

definition one_line_state :: DrawingState where
  "one_line_state = initialState\<lparr>currentTool := Tool_eraser, snapToGrid := False,
     elements := [example_line], history := [[], [example_line]], historyIndex := 1\<rparr>"

text \<open>A container, and a canvas, of 1000 by 500 pixels at the origin of the window.\<close>

definition example_rect :: DOMRect where
  "example_rect = \<lparr>rect_left = 0, rect_top = 0, rect_width = 1000, rect_height = 500\<rparr>"

text \<open>The angle tool after two clicks, at (100, 200) and (200, 200).\<close>

definition angle_two_clicks :: ToolState where
  "angle_two_clicks = \<lparr>
     isDrawing = True,
     currentElement = Some (new_draft ''angle-1'' Type_angle
        [\<lparr>px = 100, py = 200\<rparr>, \<lparr>px = 200, py = 200\<rparr>]
        (ts_angle (toolSettings initialState)) (currentLayerId initialState)),
     clickCount = 2\<rparr>"

text \<open>A document whose only entry has a number for its id.\<close>

definition bad_document :: json where
  "bad_document = JArr [JObj [(''id'', JNum 1)]]"

section \<open>Properties of the reducer\<close>

lemma dispatch_all_append:
  "dispatch_all s (xs @ ys) =
     (case dispatch_all s xs of Inl e \<Rightarrow> Inl e | Inr s' \<Rightarrow> dispatch_all s' ys)"
  by (induction xs arbitrary: s) (auto split: sum.splits)

lemma at_tip_initialState: "at_tip initialState"
  by (simp add: at_tip_def initialState_def)

text \<open>
  A history-significant action drops the snapshots after the cursor, appends its own and
  moves the cursor onto it; the snapshots up to the old cursor stay.
\<close>

lemma significant_step:
  assumes "is_significant a" and "historyIndex s < length (history s)"
  shows "\<exists>s'. drawingReducer s a = Inr s' \<and> at_tip s' \<and> historyIndex s' = historyIndex s + 1
           \<and> take (historyIndex s + 1) (history s') = take (historyIndex s + 1) (history s)"
  using assms
  by (cases a) (auto simp: at_tip_def push_history_def Let_def nth_append min_def)

lemma significant_run:
  assumes "\<forall>a \<in> set acts. is_significant a" and "historyIndex s < length (history s)"
    and "acts \<noteq> []"
  shows "\<exists>s'. dispatch_all s acts = Inr s' \<and> at_tip s'
           \<and> historyIndex s' = historyIndex s + length acts
           \<and> take (historyIndex s + 1) (history s') = take (historyIndex s + 1) (history s)"
  using assms
proof (induction acts arbitrary: s)
  case Nil
  then show ?case by simp
next
  case (Cons a acts)
  from Cons.prems have "is_significant a" by simp
  from significant_step[OF this Cons.prems(2)] obtain s1 where
    s1: "drawingReducer s a = Inr s1" "at_tip s1" "historyIndex s1 = historyIndex s + 1"
        "take (historyIndex s + 1) (history s1) = take (historyIndex s + 1) (history s)"
    by blast
  show ?case
  proof (cases "acts = []")
    case True
    with s1 show ?thesis by simp
  next
    case False
    have "historyIndex s1 < length (history s1)" using s1(2) by (simp add: at_tip_def)
    from Cons.IH[OF _ this False] Cons.prems(1) obtain s' where
      s': "dispatch_all s1 acts = Inr s'" "at_tip s'"
          "historyIndex s' = historyIndex s1 + length acts"
          "take (historyIndex s1 + 1) (history s') = take (historyIndex s1 + 1) (history s1)"
      by auto
    have "take (historyIndex s + 1) (take (historyIndex s1 + 1) (history s'))
            = take (historyIndex s + 1) (take (historyIndex s1 + 1) (history s1))"
      using s'(4) by simp
    then have "take (historyIndex s + 1) (history s') = take (historyIndex s + 1) (history s1)"
      using s1(3) by (simp add: min_def)
    with s1 s' show ?thesis by simp
  qed
qed

lemma significant_run_tip:
  assumes "\<forall>a \<in> set acts. is_significant a" and "at_tip s"
  shows "\<exists>s'. dispatch_all s acts = Inr s' \<and> at_tip s'
           \<and> historyIndex s' = historyIndex s + length acts"
proof (cases "acts = []")
  case True
  with assms show ?thesis by simp
next
  case False
  have "historyIndex s < length (history s)" using assms(2) by (simp add: at_tip_def)
  from significant_run[OF assms(1) this False] show ?thesis by blast
qed

lemma undo_run:
  assumes "k \<le> historyIndex s" and "historyIndex s < length (history s)"
  shows "\<exists>s'. dispatch_all s (replicate k UNDO) = Inr s' \<and> history s' = history s
           \<and> historyIndex s' = historyIndex s - k
           \<and> (if k = 0 then s' = s else elements s' = history s ! (historyIndex s - k))"
  using assms
proof (induction k arbitrary: s)
  case 0
  then show ?case by simp
next
  case (Suc k)
  let ?s1 = "s\<lparr>elements := history s ! (historyIndex s - 1),
                historyIndex := historyIndex s - 1, selectedElementIds := []\<rparr>"
  from Suc.prems have step: "drawingReducer s UNDO = Inr ?s1" by simp
  from Suc.prems have "k \<le> historyIndex ?s1" "historyIndex ?s1 < length (history ?s1)" by auto
  from Suc.IH[OF this] obtain s' where
    "dispatch_all ?s1 (replicate k UNDO) = Inr s'" "history s' = history ?s1"
    "historyIndex s' = historyIndex ?s1 - k"
    "if k = 0 then s' = ?s1 else elements s' = history ?s1 ! (historyIndex ?s1 - k)" by blast
  moreover have "dispatch_all s (replicate (Suc k) UNDO) = dispatch_all ?s1 (replicate k UNDO)"
    using step by (simp del: drawingReducer.simps)
  ultimately show ?case by (cases "k = 0") simp_all
qed

lemma redo_run:
  assumes "historyIndex s + k < length (history s)"
  shows "\<exists>s'. dispatch_all s (replicate k REDO) = Inr s' \<and> history s' = history s
           \<and> historyIndex s' = historyIndex s + k
           \<and> (if k = 0 then s' = s else elements s' = history s ! (historyIndex s + k))"
  using assms
proof (induction k arbitrary: s)
  case 0
  then show ?case by simp
next
  case (Suc k)
  let ?s1 = "s\<lparr>elements := history s ! (historyIndex s + 1),
                historyIndex := historyIndex s + 1, selectedElementIds := []\<rparr>"
  from Suc.prems have step: "drawingReducer s REDO = Inr ?s1" by simp
  from Suc.prems have "historyIndex ?s1 + k < length (history ?s1)" by auto
  from Suc.IH[OF this] obtain s' where
    "dispatch_all ?s1 (replicate k REDO) = Inr s'" "history s' = history ?s1"
    "historyIndex s' = historyIndex ?s1 + k"
    "if k = 0 then s' = ?s1 else elements s' = history ?s1 ! (historyIndex ?s1 + k)" by blast
  moreover have "dispatch_all s (replicate (Suc k) REDO) = dispatch_all ?s1 (replicate k REDO)"
    using step by (simp del: drawingReducer.simps)
  ultimately show ?case by (cases "k = 0") simp_all
qed

text \<open>
  C1. After any sequence of history-significant actions from the initial state, \<open>k\<close>
  undos followed by \<open>k\<close> redos (\<open>k\<close> at most the number of those actions) give back a
  state with exactly the element list held before the undos.
\<close>

theorem undo_redo_round_trip:
  assumes "\<forall>a \<in> set acts. is_significant a" and "k \<le> length acts"
  shows "\<exists>s s'. dispatch_all initialState acts = Inr s
           \<and> dispatch_all s (replicate k UNDO @ replicate k REDO) = Inr s'
           \<and> elements s' = elements s"
proof -
  from significant_run_tip[OF assms(1) at_tip_initialState] obtain s where
    s: "dispatch_all initialState acts = Inr s" "at_tip s"
       "historyIndex s = historyIndex initialState + length acts" by blast
  have idx: "historyIndex s = length acts" using s(3) by (simp add: initialState_def)
  have "k \<le> historyIndex s" "historyIndex s < length (history s)"
    using assms(2) idx s(2) by (auto simp: at_tip_def)
  from undo_run[OF this] obtain s1 where
    s1: "dispatch_all s (replicate k UNDO) = Inr s1" "history s1 = history s"
        "historyIndex s1 = historyIndex s - k"
        "if k = 0 then s1 = s else elements s1 = history s ! (historyIndex s - k)" by blast
  have "historyIndex s1 + k < length (history s1)"
    using s1 s(2) assms(2) idx by (simp add: at_tip_def)
  from redo_run[OF this] obtain s2 where
    s2: "dispatch_all s1 (replicate k REDO) = Inr s2"
        "if k = 0 then s2 = s1 else elements s2 = history s1 ! (historyIndex s1 + k)" by blast
  have "elements s2 = elements s"
  proof (cases "k = 0")
    case True
    with s1 s2 show ?thesis by simp
  next
    case False
    with s2 s1 assms(2) idx s(2) show ?thesis by (simp add: at_tip_def)
  qed
  with s s1 s2 show ?thesis by (auto simp: dispatch_all_append)
qed

theorem undo_redo_round_trip_witness:
  "\<exists>s s'. dispatch_all initialState [ADD_ELEMENT example_line, DELETE_ELEMENTS [''line-1'']] = Inr s
     \<and> dispatch_all s (replicate 2 UNDO @ replicate 2 REDO) = Inr s'
     \<and> elements s' = elements s"
  using undo_redo_round_trip[of "[ADD_ELEMENT example_line, DELETE_ELEMENTS [''line-1'']]" 2]
  by simp

text \<open>
  C2, as stated, at \<open>n = 1\<close>: one ADD_ELEMENT, one UNDO and one more ADD_ELEMENT leave a
  history of two snapshots with the cursor at 1, not a history of one snapshot with the
  cursor at 0. The initial empty snapshot is an entry of the history as well.
\<close>

theorem history_truncation_counterexample:
  "history_shape (dispatch_all initialState
       [ADD_ELEMENT example_line, UNDO, ADD_ELEMENT example_line]) = Some (2, 1)
   \<and> history_shape (dispatch_all initialState
       [ADD_ELEMENT example_line, UNDO, ADD_ELEMENT example_line]) \<noteq> Some (1, 0)"
  by (simp add: initialState_def push_history_def Let_def)

text \<open>
  C2, amended. After \<open>n \<ge> 1\<close> history-significant actions from the initial state, one
  UNDO and one new history-significant action, the history holds \<open>n + 1\<close> snapshots
  and the cursor is at \<open>n\<close>: the snapshot that could have been redone is gone.
\<close>

theorem history_truncation:
  assumes "\<forall>a \<in> set acts. is_significant a" and "acts \<noteq> []" and "is_significant a'"
  shows "\<exists>s. dispatch_all initialState (acts @ [UNDO, a']) = Inr s
           \<and> length (history s) = length acts + 1 \<and> historyIndex s = length acts"
proof -
  from significant_run_tip[OF assms(1) at_tip_initialState] obtain s where
    s: "dispatch_all initialState acts = Inr s" "at_tip s"
       "historyIndex s = historyIndex initialState + length acts" by blast
  have idx: "historyIndex s = length acts" using s(3) by (simp add: initialState_def)
  let ?u = "s\<lparr>elements := history s ! (historyIndex s - 1),
              historyIndex := historyIndex s - 1, selectedElementIds := []\<rparr>"
  have u: "drawingReducer s UNDO = Inr ?u"
    using idx assms(2) s(2) by (simp add: at_tip_def)
  have "historyIndex ?u < length (history ?u)" using s(2) by (simp add: at_tip_def)
  from significant_step[OF assms(3) this] obtain s' where
    s': "drawingReducer ?u a' = Inr s'" "at_tip s'" "historyIndex s' = historyIndex ?u + 1"
    by blast
  have "historyIndex s' = length acts" using s'(3) idx assms(2) by simp
  moreover have "length (history s') = length acts + 1"
    using s'(2) \<open>historyIndex s' = length acts\<close> by (simp add: at_tip_def)
  moreover have "dispatch_all initialState (acts @ [UNDO, a']) = Inr s'"
    using s(1) u s'(1) by (simp add: dispatch_all_append del: drawingReducer.simps)
  ultimately show ?thesis by blast
qed

theorem history_truncation_witness:
  "\<exists>s. dispatch_all initialState
          ([ADD_ELEMENT example_line, SAVE_STATE] @ [UNDO, DELETE_ELEMENTS [''line-1'']]) = Inr s
       \<and> length (history s) = length [ADD_ELEMENT example_line, SAVE_STATE] + 1
       \<and> historyIndex s = length [ADD_ELEMENT example_line, SAVE_STATE]"
  using history_truncation[of "[ADD_ELEMENT example_line, SAVE_STATE]"
          "DELETE_ELEMENTS [''line-1'']"]
  by simp

text \<open>The page count never falls below one.\<close>

lemma reducer_totalPages:
  "drawingReducer s a = Inr s' \<Longrightarrow> 1 \<le> totalPages s \<Longrightarrow> 1 \<le> totalPages s'"
  by (cases a) (auto simp: Let_def split: if_splits list.splits)

lemma reachable_totalPages:
  "dispatch_all s acts = Inr s' \<Longrightarrow> 1 \<le> totalPages s \<Longrightarrow> 1 \<le> totalPages s'"
proof (induction acts arbitrary: s)
  case Nil
  then show ?case by simp
next
  case (Cons a acts)
  then show ?case
    by (auto split: sum.splits dest: reducer_totalPages simp del: drawingReducer.simps)
qed

text \<open>
  C8. In a state with at least one page, DELETE_PAGE changes nothing when one page is
  left; otherwise it takes one from \<open>totalPages\<close> and sets \<open>currentPage\<close> by the rule:
  one less if the deleted page is at or before it and it is above 1, else the new total
  if it exceeds the new total, else unchanged. From the initial state three ADD_PAGE give
  4 pages with page 4 current, and DELETE_PAGE 2 then gives 3 pages with page 3 current.
\<close>

theorem delete_page_rule:
  assumes "1 \<le> totalPages s"
  shows "(totalPages s = 1 \<longrightarrow> drawingReducer s (DELETE_PAGE p) = Inr s)
       \<and> (totalPages s \<noteq> 1 \<longrightarrow>
            drawingReducer s (DELETE_PAGE p) =
              Inr (s\<lparr>totalPages := totalPages s - 1,
                      currentPage :=
                        (if p \<le> currentPage s \<and> currentPage s > 1 then currentPage s - 1
                         else if currentPage s > totalPages s - 1 then totalPages s - 1
                         else currentPage s)\<rparr>))
       \<and> page_shape (dispatch_all initialState [ADD_PAGE, ADD_PAGE, ADD_PAGE]) = Some (4, 4)
       \<and> page_shape (dispatch_all initialState [ADD_PAGE, ADD_PAGE, ADD_PAGE, DELETE_PAGE 2])
           = Some (3, 3)"
  using assms by (simp add: Let_def initialState_def)

theorem delete_page_rule_witness:
  "1 \<le> totalPages (initialState\<lparr>totalPages := 4, currentPage := 4\<rparr>)
   \<and> drawingReducer (initialState\<lparr>totalPages := 4, currentPage := 4\<rparr>) (DELETE_PAGE 2)
       = Inr (initialState\<lparr>totalPages := 3, currentPage := 3\<rparr>)
   \<and> drawingReducer initialState (DELETE_PAGE 1) = Inr initialState"
  using delete_page_rule[of "initialState\<lparr>totalPages := 4, currentPage := 4\<rparr>" 2]
        delete_page_rule[of initialState 1]
  by (simp add: initialState_def)

text \<open>Layer ids that are pairwise distinct leave a layer after any one is deleted.\<close>

lemma distinct_layers_survivor:
  assumes "distinct (map layer_id (layers s))" and "1 < length (layers s)"
  shows "\<exists>l \<in> set (layers s). layer_id l \<noteq> i"
proof (rule ccontr)
  assume "\<not> (\<exists>l \<in> set (layers s). layer_id l \<noteq> i)"
  then have "set (map layer_id (layers s)) \<subseteq> {i}" by auto
  then have "card (set (map layer_id (layers s))) \<le> card {i}"
    by (intro card_mono) auto
  moreover have "card (set (map layer_id (layers s))) = length (layers s)"
    using distinct_card[OF assms(1)] by simp
  ultimately show False using assms(2) by simp
qed

text \<open>
  C10. In a state with more than one layer, DELETE_LAYER keeps exactly the elements of
  the other layers and changes no field but \<open>layers\<close>, \<open>currentLayerId\<close> and
  \<open>elements\<close>; \<open>history\<close> and \<open>historyIndex\<close> stay. This is for a state in which a
  layer with another id is left to become current when the current layer is the deleted
  one. No snapshot is taken: after an ADD_ELEMENT on layer-1 and DELETE_LAYER layer-1
  the element list differs from the snapshot under the cursor.
\<close>

theorem delete_layer_frame:
  assumes "1 < length (layers s)"
    and "currentLayerId s \<noteq> i \<or> (\<exists>l \<in> set (layers s). layer_id l \<noteq> i)"
  shows "(\<exists>s'. drawingReducer s (DELETE_LAYER i) = Inr s'
            \<and> elements s' = filter (\<lambda>el. layerId el \<noteq> i) (elements s)
            \<and> layers s' = filter (\<lambda>l. layer_id l \<noteq> i) (layers s)
            \<and> history s' = history s \<and> historyIndex s' = historyIndex s
            \<and> s'\<lparr>layers := layers s, currentLayerId := currentLayerId s,
                  elements := elements s\<rparr> = s)
       \<and> (\<exists>s'. dispatch_all initialState
                  [ADD_ELEMENT example_line, DELETE_LAYER ''layer-1''] = Inr s'
            \<and> elements s' \<noteq> history s' ! historyIndex s')"
proof -
  have "\<exists>s'. drawingReducer s (DELETE_LAYER i) = Inr s'
            \<and> elements s' = filter (\<lambda>el. layerId el \<noteq> i) (elements s)
            \<and> layers s' = filter (\<lambda>l. layer_id l \<noteq> i) (layers s)
            \<and> history s' = history s \<and> historyIndex s' = historyIndex s
            \<and> s'\<lparr>layers := layers s, currentLayerId := currentLayerId s,
                  elements := elements s\<rparr> = s"
  proof (cases "currentLayerId s = i")
    case True
    with assms(2) have "filter (\<lambda>l. layer_id l \<noteq> i) (layers s) \<noteq> []"
      by (auto simp: filter_empty_conv)
    then obtain l ls where "filter (\<lambda>l. layer_id l \<noteq> i) (layers s) = l # ls"
      by (cases "filter (\<lambda>l. layer_id l \<noteq> i) (layers s)") auto
    with assms(1) True show ?thesis by (simp add: Let_def)
  next
    case False
    with assms(1) show ?thesis by (simp add: Let_def)
  qed
  moreover have "\<exists>s'. dispatch_all initialState
                  [ADD_ELEMENT example_line, DELETE_LAYER ''layer-1''] = Inr s'
            \<and> elements s' \<noteq> history s' ! historyIndex s'"
    by (simp add: initialState_def push_history_def example_line_def Let_def)
  ultimately show ?thesis by blast
qed

theorem delete_layer_frame_witness:
  "\<exists>s'. drawingReducer one_line_state (DELETE_LAYER ''layer-1'') = Inr s'
       \<and> elements s' = []
       \<and> history s' = [[], [example_line]] \<and> historyIndex s' = 1"
  using delete_layer_frame[of one_line_state "''layer-1''"]
  by (simp add: one_line_state_def initialState_def example_line_def)

section \<open>Properties of the viewport\<close>

lemma initial_pageWidth: "pageWidth initialState = 794"
  by (simp add: initialState_def A4_WIDTH_MM_def MM_TO_PX_def round_def)

lemma initial_pageHeight: "pageHeight initialState = 1123"
  by (simp add: initialState_def A4_HEIGHT_MM_def MM_TO_PX_def round_def)

lemma initial_totalPages: "totalPages initialState = 1"
  by (simp add: initialState_def)

lemma initial_content: "getContentSize initialState = (894, 1223)"
  by (simp add: getContentSize_def initial_pageWidth initial_pageHeight initial_totalPages
      CANVAS_PADDING_def PAGE_MARGIN_def)

text \<open>A document of one A4 page: the page is the rectangle from (50, 50) to (844, 1173).\<close>

lemma single_page_geometry:
  assumes "totalPages s = 1" and "pageWidth s = 794" and "pageHeight s = 1123"
  shows "getPageAtPoint s p =
           (if 50 \<le> px p \<and> px p \<le> 844 \<and> 50 \<le> py p \<and> py p \<le> 1173 then Some 1 else None)"
  using assms
  by (simp add: getPageAtPoint_def in_bounds_def getPageBounds_def CANVAS_PADDING_def
      PAGE_MARGIN_def)

lemma single_page_on_some_page:
  assumes "totalPages s = 1" and "pageWidth s = 794" and "pageHeight s = 1123"
  shows "on_some_page s p \<longleftrightarrow> 50 \<le> px p \<and> px p \<le> 844 \<and> 50 \<le> py p \<and> py p \<le> 1173"
  using assms
  by (simp add: on_some_page_def in_bounds_def getPageBounds_def CANVAS_PADDING_def
      PAGE_MARGIN_def)

lemmas initial_geometry =
  single_page_geometry[OF initial_totalPages initial_pageWidth initial_pageHeight]

text \<open>The example states are reached from the initial state and have its one page.\<close>

lemma example_states_reachable:
  "dispatch_all initialState [SET_TOOL Tool_line, TOGGLE_SNAP None] = Inr line_tool_state"
  "dispatch_all initialState [SET_TOOL Tool_freehand, TOGGLE_SNAP None] = Inr freehand_tool_state"
  "dispatch_all initialState [TOGGLE_SNAP None, ADD_ELEMENT example_line, SET_TOOL Tool_eraser]
     = Inr one_line_state"
  by (simp_all add: line_tool_state_def freehand_tool_state_def one_line_state_def
      initialState_def push_history_def Let_def)

lemma line_tool_geometry:
  "getPageAtPoint line_tool_state p =
     (if 50 \<le> px p \<and> px p \<le> 844 \<and> 50 \<le> py p \<and> py p \<le> 1173 then Some 1 else None)"
  by (rule single_page_geometry)
     (simp_all add: line_tool_state_def initial_totalPages initial_pageWidth initial_pageHeight)

lemma freehand_tool_geometry:
  "getPageAtPoint freehand_tool_state p =
     (if 50 \<le> px p \<and> px p \<le> 844 \<and> 50 \<le> py p \<and> py p \<le> 1173 then Some 1 else None)"
  by (rule single_page_geometry)
     (simp_all add: freehand_tool_state_def initial_totalPages initial_pageWidth
        initial_pageHeight)

lemma one_line_geometry:
  "getPageAtPoint one_line_state p =
     (if 50 \<le> px p \<and> px p \<le> 844 \<and> 50 \<le> py p \<and> py p \<le> 1173 then Some 1 else None)"
  by (rule single_page_geometry)
     (simp_all add: one_line_state_def initial_totalPages initial_pageWidth initial_pageHeight)

text \<open>
  With the canvas at the origin of the window, zoom 1, no pan and snapping off, a mouse
  event at client position \<open>(x, y)\<close> reaches the tool as the point \<open>(x, y)\<close>.
\<close>

lemma example_points_received:
  "getCanvasPoint line_tool_state (Some example_rect) \<lparr>clientX = a, clientY = b\<rparr>
     = \<lparr>px = a, py = b\<rparr>"
  "getCanvasPoint freehand_tool_state (Some example_rect) \<lparr>clientX = a, clientY = b\<rparr>
     = \<lparr>px = a, py = b\<rparr>"
  "getCanvasPoint one_line_state (Some example_rect) \<lparr>clientX = a, clientY = b\<rparr>
     = \<lparr>px = a, py = b\<rparr>"
  by (simp_all add: getCanvasPoint_def line_tool_state_def freehand_tool_state_def
      one_line_state_def initialState_def example_rect_def Let_def)

lemma getPageAtPoint_Some:
  "getPageAtPoint s p = Some n \<Longrightarrow>
     in_bounds p (getPageBounds s n) \<and> 1 \<le> n \<and> n \<le> totalPages s"
  by (auto simp: getPageAtPoint_def find_Some_iff dest: nth_mem)

lemma getPageAtPoint_on_some_page:
  "on_some_page s p \<longleftrightarrow> getPageAtPoint s p \<noteq> None"
  by (auto simp: on_some_page_def getPageAtPoint_def list_ex_iff find_None_iff)

text \<open>
  \<open>clipToPageBounds\<close> looks the page up by the point it is given, so the page it clips to
  already holds the point: it returns every point unchanged.
\<close>

lemma clipToPageBounds_id: "clipToPageBounds s p = p"
  by (auto simp: clipToPageBounds_def in_bounds_def Let_def dest!: getPageAtPoint_Some
      split: option.splits)

text \<open>The zoom stays positive: SET_ZOOM keeps it at or above \<open>minZoom\<close>, which is at least 0.1.\<close>

lemma reducer_zoom:
  "drawingReducer s a = Inr s' \<Longrightarrow> 0 < zoom s \<and> 1 / 10 \<le> minZoom s
     \<Longrightarrow> 0 < zoom s' \<and> 1 / 10 \<le> minZoom s'"
  by (cases a) (auto simp: Let_def split: if_splits list.splits)

lemma reachable_zoom:
  "dispatch_all s acts = Inr s' \<Longrightarrow> 0 < zoom s \<and> 1 / 10 \<le> minZoom s
     \<Longrightarrow> 0 < zoom s' \<and> 1 / 10 \<le> minZoom s'"
proof (induction acts arbitrary: s)
  case Nil
  then show ?case by simp
next
  case (Cons a acts)
  from Cons.prems(1) obtain s1 where
    s1: "drawingReducer s a = Inr s1" "dispatch_all s1 acts = Inr s'"
    by (auto split: sum.splits simp del: drawingReducer.simps)
  from reducer_zoom[OF s1(1) Cons.prems(2)] Cons.IH[OF s1(2)] show ?case by blast
qed

text \<open>
  C7. With a positive zoom, \<open>clampPan\<close> is idempotent, whether or not the container is
  mounted. With the container mounted, on an axis where the content is no larger than
  the viewport in document units the result is the centring value
  \<open>(viewport - content) / 2\<close> whatever the input; on an axis where the content is larger
  the result lies between \<open>-(content - viewport)\<close> and 0.
\<close>

theorem clampPan_idempotent_centering:
  assumes "0 < zoom s"
  shows "clampPan s container (clampPan s container p) = clampPan s container p
       \<and> (fst (getContentSize s) \<le> rect_width r / zoom s \<longrightarrow>
            px (clampPan s (Some r) p) = (rect_width r / zoom s - fst (getContentSize s)) / 2)
       \<and> (snd (getContentSize s) \<le> rect_height r / zoom s \<longrightarrow>
            py (clampPan s (Some r) p) = (rect_height r / zoom s - snd (getContentSize s)) / 2)
       \<and> (fst (getContentSize s) > rect_width r / zoom s \<longrightarrow>
            - (fst (getContentSize s) - rect_width r / zoom s) \<le> px (clampPan s (Some r) p)
            \<and> px (clampPan s (Some r) p) \<le> 0)
       \<and> (snd (getContentSize s) > rect_height r / zoom s \<longrightarrow>
            - (snd (getContentSize s) - rect_height r / zoom s) \<le> py (clampPan s (Some r) p)
            \<and> py (clampPan s (Some r) p) \<le> 0)"
proof -
  have "clampPan s container (clampPan s container p) = clampPan s container p"
    by (cases container) (auto simp: clampPan_def Let_def)
  then show ?thesis by (auto simp: clampPan_def Let_def)
qed

theorem clampPan_idempotent_centering_witness:
  "0 < zoom initialState
   \<and> clampPan initialState (Some example_rect)
       (clampPan initialState (Some example_rect) \<lparr>px = 5, py = - 2000\<rparr>)
     = clampPan initialState (Some example_rect) \<lparr>px = 5, py = - 2000\<rparr>
   \<and> fst (getContentSize initialState) \<le> rect_width example_rect / zoom initialState
   \<and> px (clampPan initialState (Some example_rect) \<lparr>px = 5, py = - 2000\<rparr>) = 53
   \<and> snd (getContentSize initialState) > rect_height example_rect / zoom initialState
   \<and> py (clampPan initialState (Some example_rect) \<lparr>px = 5, py = - 2000\<rparr>) = - 723"
proof -
  have z: "zoom initialState = 1" by (simp add: initialState_def)
  have "0 < zoom initialState" by (simp add: z)
  from clampPan_idempotent_centering[OF this, of "Some example_rect"
         "\<lparr>px = 5, py = - 2000\<rparr>" example_rect]
  show ?thesis
    by (simp add: z initial_content example_rect_def clampPan_def Let_def)
qed

section \<open>Properties of the tools\<close>

lemma run_events_dispatch:
  "run_events tool ts s evs = Inr (ts', s', trace) \<Longrightarrow> dispatch_all s trace = Inr s'"
proof (induction evs arbitrary: ts s trace)
  case Nil
  then show ?case by simp
next
  case (Cons ev evs)
  from Cons.prems obtain ts1 acts s1 tr where
    h: "tool s ts ev = Inr (ts1, acts)" "dispatch_all s acts = Inr s1"
       "run_events tool ts1 s1 evs = Inr (ts', s', tr)" "trace = acts @ tr"
    by (auto split: sum.splits prod.splits)
  from Cons.IH[OF h(3)] h show ?case by (simp add: dispatch_all_append)
qed

text \<open>A pointer-down on no page starts nothing, in each of the three drawing tools.\<close>

lemma pointer_down_off_page:
  assumes "getPageAtPoint s point = None"
  shows "line_handleMouseDown s ts point now = Inr (ts, [])"
    and "freehand_handleMouseDown s ts point now = Inr (ts, [])"
    and "angle_handleMouseDown s ts point now = Inr (ts, [])"
  using assms
  by (simp_all add: line_handleMouseDown_def freehand_handleMouseDown_def
      angle_handleMouseDown_def)

text \<open>
  The line tool, dragged from (100, 100) to (200, 100), commits the example line, with
  the length 100 as its measurement.
\<close>

lemma example_line_drawn:
  "dispatched (run_events LineTool idle line_tool_state
       [MouseDown \<lparr>px = 100, py = 100\<rparr> ''1'', MouseMove \<lparr>px = 200, py = 100\<rparr>, MouseUp])
     = Some [ADD_ELEMENT example_line]"
proof -
  have g: "getPageAtPoint line_tool_state \<lparr>px = 100, py = 100\<rparr> = Some 1"
    by (simp add: line_tool_geometry)
  have r: "sqrt 10000 = 100" by (rule real_sqrt_unique) simp_all
  have e: "toolSettings line_tool_state = toolSettings initialState"
    "currentLayerId line_tool_state = ''layer-1''"
    by (simp_all add: line_tool_state_def initialState_def)
  have st: "ts_line (toolSettings initialState)
              = \<lparr>set_strokeWidth = 2, set_strokeColor = ''#ffffff''\<rparr>"
    by (simp add: initialState_def)
  show ?thesis
    by (simp add: g r e st clipToPageBounds_id line_handleMouseDown_def
        line_handleMouseMove_def line_handleMouseUp_def idle_def new_draft_def Let_def
        example_line_def)
qed

text \<open>
  C3. Specified: every element the line, angle or freehand tool commits has all its
  points inside some page. The line tool, with snapping off: pointer-down at (100, 100)
  on page 1, pointer-move to (10, 100), left of the page, pointer-up. The committed line
  ends at (10, 100), which lies on no page; \<open>clipToPageBounds\<close> returned that point
  unchanged.
\<close>

theorem line_commits_point_off_page:
  "map_option (map points) (elements_of (final_state (run_events LineTool idle line_tool_state
       [MouseDown \<lparr>px = 100, py = 100\<rparr> ''1'', MouseMove \<lparr>px = 10, py = 100\<rparr>, MouseUp])))
     = Some [[\<lparr>px = 100, py = 100\<rparr>, \<lparr>px = 10, py = 100\<rparr>]]
   \<and> \<not> on_some_page line_tool_state \<lparr>px = 10, py = 100\<rparr>
   \<and> clipToPageBounds line_tool_state \<lparr>px = 10, py = 100\<rparr> = \<lparr>px = 10, py = 100\<rparr>"
proof -
  have g: "getPageAtPoint line_tool_state \<lparr>px = 100, py = 100\<rparr> = Some 1"
    by (simp add: line_tool_geometry)
  have "\<not> on_some_page line_tool_state \<lparr>px = 10, py = 100\<rparr>"
    by (simp add: getPageAtPoint_on_some_page line_tool_geometry)
  moreover have "elements line_tool_state = []"
    by (simp add: line_tool_state_def initialState_def)
  ultimately show ?thesis
    by (simp add: g clipToPageBounds_id line_handleMouseDown_def line_handleMouseMove_def
        line_handleMouseUp_def idle_def new_draft_def Let_def)
qed

text \<open>With two points or more, pointer-up commits the freehand draft and ends stroking.\<close>

lemma freehand_up_commits:
  assumes "isDrawing ts" and "currentElement ts = Some el" and "2 \<le> length (points el)"
  shows "freehand_handleMouseUp ts =
           Inr (ts\<lparr>currentElement := None, isDrawing := False\<rparr>, [ADD_ELEMENT el])"
  using assms by (simp add: freehand_handleMouseUp_def)

text \<open>
  C5. Specified: pointer-up discards a freehand draft of one point, that is, the draft
  is cleared and stroking ends. The freehand tool: pointer-down at (100, 100),
  pointer-up. Nothing is dispatched, and afterwards the draft is still the current
  element and \<open>isDrawing\<close> is still true. A pointer-move to (200, 100) after the release
  then extends that draft, and the next pointer-up commits it.
\<close>

theorem freehand_up_keeps_single_point_draft:
  "final_tool (run_events FreehandTool idle freehand_tool_state
       [MouseDown \<lparr>px = 100, py = 100\<rparr> ''1'', MouseUp])
     = Some \<lparr>isDrawing = True,
             currentElement = Some (new_draft ''freehand-1'' Type_freehand
                [\<lparr>px = 100, py = 100\<rparr>]
                (ts_freehand (toolSettings initialState)) (currentLayerId initialState)),
             clickCount = 0\<rparr>
   \<and> dispatched (run_events FreehandTool idle freehand_tool_state
       [MouseDown \<lparr>px = 100, py = 100\<rparr> ''1'', MouseUp]) = Some []
   \<and> map_option (map points) (elements_of (final_state (run_events FreehandTool idle
       freehand_tool_state [MouseDown \<lparr>px = 100, py = 100\<rparr> ''1'', MouseUp,
                            MouseMove \<lparr>px = 200, py = 100\<rparr>, MouseUp])))
     = Some [[\<lparr>px = 100, py = 100\<rparr>, \<lparr>px = 200, py = 100\<rparr>]]"
proof -
  have g: "getPageAtPoint freehand_tool_state \<lparr>px = 100, py = 100\<rparr> = Some 1"
    by (simp add: freehand_tool_geometry)
  have r: "2 < sqrt 10000" by (rule real_less_rsqrt) simp
  have e: "elements freehand_tool_state = []"
    "toolSettings freehand_tool_state = toolSettings initialState"
    "currentLayerId freehand_tool_state = currentLayerId initialState"
    by (simp_all add: freehand_tool_state_def initialState_def)
  show ?thesis
    by (simp add: g r e clipToPageBounds_id freehand_handleMouseDown_def
        freehand_handleMouseMove_def freehand_handleMouseUp_def idle_def new_draft_def Let_def)
qed

subsection \<open>The angle measurement\<close>

lemma atan2_bounds: "- pi < atan2 y x \<and> atan2 y x \<le> pi"
proof -
  have b: "- (pi / 2) < arctan (y / x)" "arctan (y / x) < pi / 2"
    by (rule arctan_lbound, rule arctan_ubound)
  consider "x > 0" | "x < 0" "y \<ge> 0" | "x < 0" "y < 0" | "x = 0" by linarith
  then show ?thesis
  proof cases
    case 1
    then have "atan2 y x = arctan (y / x)" by (simp add: atan2_def)
    with b pi_gt_zero show ?thesis by linarith
  next
    case 2
    then have "y / x \<le> 0" by (simp add: divide_nonneg_neg)
    then have "arctan (y / x) \<le> 0" by (simp only: arctan_le_zero_iff)
    moreover from 2 have "atan2 y x = arctan (y / x) + pi" by (simp add: atan2_def)
    ultimately show ?thesis using b pi_gt_zero by linarith
  next
    case 3
    then have "0 < y / x" by (simp add: divide_neg_neg)
    then have "0 < arctan (y / x)" by (simp only: zero_less_arctan_iff)
    moreover from 3 have "atan2 y x = arctan (y / x) - pi" by (simp add: atan2_def)
    ultimately show ?thesis using b pi_gt_zero by linarith
  next
    case 4
    then have "atan2 y x = pi / 2 \<or> atan2 y x = - (pi / 2) \<or> atan2 y x = 0"
      by (simp add: atan2_def)
    then show ?thesis using pi_gt_zero by linarith
  qed
qed

lemma angle_sweep_range: "0 \<le> angle_sweep b c p \<and> angle_sweep b c p < 2 * pi"
proof -
  let ?e = "atan2 (py p - py c) (px p - px c)"
  let ?b = "atan2 (py b - py c) (px b - px c)"
  from atan2_bounds[of "py p - py c" "px p - px c"] atan2_bounds[of "py b - py c" "px b - px c"]
  have "- (2 * pi) < ?e - ?b" "?e - ?b < 2 * pi" by linarith+
  then show ?thesis by (simp add: angle_sweep_def Let_def)
qed

lemma atan2_opposite:
  assumes "0 < k" and "x \<noteq> 0 \<or> y \<noteq> 0"
  shows "atan2 (- (k * y)) (- (k * x)) =
           (if atan2 y x \<le> 0 then atan2 y x + pi else atan2 y x - pi)"
proof -
  have q: "(- (k * y)) / (- (k * x)) = y / x" using assms(1) by simp
  have b: "- (pi / 2) < arctan (y / x)" "arctan (y / x) < pi / 2"
    by (rule arctan_lbound, rule arctan_ubound)
  have sx: "- (k * x) > 0 \<longleftrightarrow> x < 0" "- (k * x) < 0 \<longleftrightarrow> x > 0"
    using assms(1) by (simp_all add: zero_less_mult_iff mult_less_0_iff)
  have sy: "- (k * y) > 0 \<longleftrightarrow> y < 0" "- (k * y) < 0 \<longleftrightarrow> y > 0"
    "- (k * y) \<ge> 0 \<longleftrightarrow> y \<le> 0"
    using assms(1)
    by (simp_all add: zero_less_mult_iff mult_less_0_iff mult_le_0_iff zero_le_mult_iff)
  define t where "t = arctan (y / x)"
  have opp: "atan2 (- (k * y)) (- (k * x)) =
     (if x < 0 then t
      else if x > 0 then (if y \<le> 0 then t + pi else t - pi)
      else if y < 0 then pi / 2
      else if y > 0 then - (pi / 2)
      else 0)"
    unfolding atan2_def q sx sy t_def by (rule refl)
  have own: "atan2 y x =
     (if x > 0 then t
      else if x < 0 then (if y \<ge> 0 then t + pi else t - pi)
      else if y > 0 then pi / 2
      else if y < 0 then - (pi / 2)
      else 0)"
    unfolding atan2_def t_def by (rule refl)
  have tb: "- (pi / 2) < t" "t < pi / 2" using b by (simp_all add: t_def)
  consider "x > 0" "y \<le> 0" | "x > 0" "y > 0" | "x < 0" "y \<ge> 0" | "x < 0" "y < 0"
    | "x = 0" "y > 0" | "x = 0" "y < 0"
    using assms(2) by linarith
  then show ?thesis
  proof cases
    case 1
    then have "y / x \<le> 0" by (simp add: divide_nonpos_pos)
    then have "t \<le> 0" unfolding t_def by (simp only: arctan_le_zero_iff)
    with 1 show ?thesis unfolding opp own by simp
  next
    case 2
    then have "0 < y / x" by simp
    then have "0 < t" unfolding t_def by (simp only: zero_less_arctan_iff)
    with 2 show ?thesis unfolding opp own by simp
  next
    case 3
    with tb have "\<not> t + pi \<le> 0" by linarith
    with 3 show ?thesis unfolding opp own by simp
  next
    case 4
    with tb have "t - pi \<le> 0" using pi_gt_zero by linarith
    with 4 show ?thesis unfolding opp own by simp
  next
    case 5
    then show ?thesis unfolding opp own by (simp add: not_le)
  next
    case 6
    then show ?thesis unfolding opp own by (simp add: not_le)
  qed
qed

lemma angle_sweep_straight:
  assumes "0 < k"
    and "px b - px c = - (k * (px p - px c))" and "py b - py c = - (k * (py p - py c))"
    and "px p \<noteq> px c \<or> py p \<noteq> py c"
  shows "angle_sweep b c p = pi"
proof -
  have "px p - px c \<noteq> 0 \<or> py p - py c \<noteq> 0" using assms(4) by simp
  from atan2_opposite[OF assms(1) this]
  show ?thesis
    unfolding angle_sweep_def Let_def assms(2,3) using pi_gt_zero by (simp split: if_splits)
qed

text \<open>
  C6. The third click of the angle tool, on a page, with a draft that holds the baseline
  point and the vertex, commits the draft with the clicked point appended and with
  \<open>measurements.angle\<close> equal to the \<open>atan2\<close> angle of the clicked point around the
  vertex minus that of the baseline point, plus \<open>2\<pi>\<close> when the difference is negative.
  The stored angle lies in \<open>[0, 2\<pi>)\<close>, and it is \<open>\<pi>\<close> when the vertex lies strictly
  between the baseline point and the clicked point on one line.
\<close>

theorem angle_third_click_measurement:
  assumes "clickCount ts = 2" and "currentElement ts = Some el"
    and "points el = baseline # center # rest" and "getPageAtPoint s point = Some page"
  shows "\<exists>\<theta>. angle_handleMouseDown s ts point now =
              Inr (ts\<lparr>currentElement := None, isDrawing := False, clickCount := 0\<rparr>,
                   [ADD_ELEMENT (el\<lparr>points := points el @ [point],
                      measurements := Some \<lparr>m_length = None, m_radius = None,
                                             m_angle = Some \<theta>\<rparr>\<rparr>)])
           \<and> \<theta> = (let d = atan2 (py point - py center) (px point - px center)
                              - atan2 (py baseline - py center) (px baseline - px center)
                      in if d < 0 then d + 2 * pi else d)
           \<and> 0 \<le> \<theta> \<and> \<theta> < 2 * pi
           \<and> (0 < k \<and> px baseline - px center = - (k * (px point - px center))
                \<and> py baseline - py center = - (k * (py point - py center))
                \<and> (px point \<noteq> px center \<or> py point \<noteq> py center)
              \<longrightarrow> \<theta> = pi)"
proof -
  let ?\<theta> = "angle_sweep baseline center point"
  have "angle_handleMouseDown s ts point now =
          Inr (ts\<lparr>currentElement := None, isDrawing := False, clickCount := 0\<rparr>,
               [ADD_ELEMENT (el\<lparr>points := points el @ [point],
                  measurements := Some \<lparr>m_length = None, m_radius = None,
                                         m_angle = Some ?\<theta>\<rparr>\<rparr>)])"
    using assms by (simp add: angle_handleMouseDown_def clipToPageBounds_id Let_def)
  moreover have "?\<theta> = (let d = atan2 (py point - py center) (px point - px center)
                              - atan2 (py baseline - py center) (px baseline - px center)
                      in if d < 0 then d + 2 * pi else d)"
    by (simp add: angle_sweep_def Let_def)
  moreover have "0 \<le> ?\<theta> \<and> ?\<theta> < 2 * pi" by (rule angle_sweep_range)
  moreover have "0 < k \<and> px baseline - px center = - (k * (px point - px center))
                \<and> py baseline - py center = - (k * (py point - py center))
                \<and> (px point \<noteq> px center \<or> py point \<noteq> py center)
              \<longrightarrow> ?\<theta> = pi"
    using angle_sweep_straight[of k baseline center point] by blast
  ultimately show ?thesis by blast
qed

theorem angle_third_click_measurement_witness:
  "angle_handleMouseDown initialState angle_two_clicks \<lparr>px = 300, py = 200\<rparr> ''2'' =
     Inr (angle_two_clicks\<lparr>currentElement := None, isDrawing := False, clickCount := 0\<rparr>,
          [ADD_ELEMENT ((new_draft ''angle-1'' Type_angle
              [\<lparr>px = 100, py = 200\<rparr>, \<lparr>px = 200, py = 200\<rparr>]
              (ts_angle (toolSettings initialState)) (currentLayerId initialState))
             \<lparr>points := [\<lparr>px = 100, py = 200\<rparr>, \<lparr>px = 200, py = 200\<rparr>,
                         \<lparr>px = 300, py = 200\<rparr>],
              measurements := Some \<lparr>m_length = None, m_radius = None,
                                     m_angle = Some pi\<rparr>\<rparr>)])"
proof -
  have g: "getPageAtPoint initialState \<lparr>px = 300, py = 200\<rparr> = Some 1"
    by (simp add: initial_geometry)
  have c: "clickCount angle_two_clicks = 2"
    and e: "currentElement angle_two_clicks = Some (new_draft ''angle-1'' Type_angle
              [\<lparr>px = 100, py = 200\<rparr>, \<lparr>px = 200, py = 200\<rparr>]
              (ts_angle (toolSettings initialState)) (currentLayerId initialState))"
    by (simp_all add: angle_two_clicks_def)
  have p: "points (new_draft ''angle-1'' Type_angle
              [\<lparr>px = 100, py = 200\<rparr>, \<lparr>px = 200, py = 200\<rparr>]
              (ts_angle (toolSettings initialState)) (currentLayerId initialState))
           = \<lparr>px = 100, py = 200\<rparr> # \<lparr>px = 200, py = 200\<rparr> # []"
    by (simp add: new_draft_def)
  from angle_third_click_measurement[OF c e p g, where k = 1 and now = "''2''"]
  show ?thesis by (auto simp: new_draft_def)
qed

subsection \<open>The eraser gesture and the history\<close>

lemma one_line_state_facts:
  "elements one_line_state = [example_line]"
  "history one_line_state = [[], [example_line]]"
  "historyIndex one_line_state = 1"
  by (simp_all add: one_line_state_def)

lemma one_line_state_page:
  "getPageAtPoint one_line_state \<lparr>px = 100, py = 100\<rparr> = Some 1"
  "getPageAtPoint one_line_state \<lparr>px = 300, py = 100\<rparr> = Some 1"
  by (simp_all add: one_line_geometry)

text \<open>The eraser at (100, 100) hits the example line; at (300, 100) it hits nothing.\<close>

lemma example_hit:
  "findElementsToErase one_line_state \<lparr>px = 100, py = 100\<rparr> = [''line-1'']"
proof -
  have "shouldErase one_line_state \<lparr>px = 100, py = 100\<rparr> example_line"
    by (simp add: shouldErase_def one_line_state_def initialState_def example_line_def
        isPointNearLine_def Let_def)
  then show ?thesis
    by (simp add: findElementsToErase_def one_line_state_facts) (simp add: example_line_def)
qed

lemma example_miss:
  "findElementsToErase one_line_state \<lparr>px = 300, py = 100\<rparr> = []"
proof -
  have r: "sqrt 10000 = 100" by (rule real_sqrt_unique) simp_all
  have "\<not> shouldErase one_line_state \<lparr>px = 300, py = 100\<rparr> example_line"
    by (simp add: shouldErase_def one_line_state_def initialState_def example_line_def
        isPointNearLine_def Let_def r)
  then show ?thesis by (simp add: findElementsToErase_def one_line_state_facts)
qed

text \<open>
  C4. Specified: a whole eraser gesture is one undo step, that is, pointer-up emits a
  single SAVE_STATE and a single UNDO afterwards restores every element the gesture
  deleted. On the document that holds the example line, the eraser goes down on an end
  of the line and up again. It dispatches DELETE_ELEMENTS for the line, which takes a
  snapshot, and then SAVE_STATE, which takes the same snapshot again. A single UNDO
  afterwards leaves the element list empty; the line is back only after a second UNDO.
  A gesture that goes down and up where it hits nothing dispatches SAVE_STATE all the
  same, and the history grows from 2 snapshots to 3 with nothing erased.
\<close>

theorem eraser_gesture_not_one_undo_step:
  "dispatched (run_events EraserTool idle one_line_state
       (eraser_gesture \<lparr>px = 100, py = 100\<rparr> []))
     = Some [DELETE_ELEMENTS [''line-1''], SAVE_STATE]
   \<and> elements_of (then_dispatch (final_state (run_events EraserTool idle one_line_state
        (eraser_gesture \<lparr>px = 100, py = 100\<rparr> []))) [UNDO]) = Some []
   \<and> elements_of (then_dispatch (final_state (run_events EraserTool idle one_line_state
        (eraser_gesture \<lparr>px = 100, py = 100\<rparr> []))) [UNDO, UNDO]) = Some [example_line]
   \<and> elements one_line_state = [example_line]
   \<and> dispatched (run_events EraserTool idle one_line_state
       (eraser_gesture \<lparr>px = 300, py = 100\<rparr> [])) = Some [SAVE_STATE]
   \<and> history_shape (Inr one_line_state) = Some (2, 1)
   \<and> history_shape (final_state (run_events EraserTool idle one_line_state
       (eraser_gesture \<lparr>px = 300, py = 100\<rparr> []))) = Some (3, 2)"
proof -
  have el: "el_id example_line = ''line-1''" by (simp add: example_line_def)
  have hit: "dispatched (run_events EraserTool idle one_line_state
       (eraser_gesture \<lparr>px = 100, py = 100\<rparr> []))
     = Some [DELETE_ELEMENTS [''line-1''], SAVE_STATE]
   \<and> elements_of (then_dispatch (final_state (run_events EraserTool idle one_line_state
        (eraser_gesture \<lparr>px = 100, py = 100\<rparr> []))) [UNDO]) = Some []
   \<and> elements_of (then_dispatch (final_state (run_events EraserTool idle one_line_state
        (eraser_gesture \<lparr>px = 100, py = 100\<rparr> []))) [UNDO, UNDO]) = Some [example_line]"
    by (simp add: eraser_gesture_def eraser_handleMouseDown_def eraser_handleMouseUp_def
        one_line_state_page example_hit one_line_state_facts el idle_def Let_def
        push_history_def)
  have miss: "dispatched (run_events EraserTool idle one_line_state
       (eraser_gesture \<lparr>px = 300, py = 100\<rparr> [])) = Some [SAVE_STATE]
   \<and> history_shape (final_state (run_events EraserTool idle one_line_state
       (eraser_gesture \<lparr>px = 300, py = 100\<rparr> []))) = Some (3, 2)"
    by (simp add: eraser_gesture_def eraser_handleMouseDown_def eraser_handleMouseUp_def
        one_line_state_page example_miss one_line_state_facts idle_def Let_def
        push_history_def)
  have "history_shape (Inr one_line_state) = Some (2, 1)"
    by (simp add: one_line_state_facts)
  with hit miss one_line_state_facts(1) show ?thesis by blast
qed

section \<open>Properties of the serialization\<close>

lemma map_of_opt_field:
  "map_of (opt_field k f v) k' = (if k' = k then map_option f v else None)"
  by (simp add: opt_field_def split: option.splits)

lemma as_string_JStr: "as_string (map_option JStr v) = v"
  by (cases v) simp_all

lemma as_number_JNum: "as_number (map_option JNum v) = v"
  by (cases v) simp_all

lemma as_bool_JBool: "as_bool (map_option JBool v) = v"
  by (cases v) simp_all

text \<open>The checks of the source accept exactly the documents of the schema.\<close>

lemma check_points_schema:
  "check_points idx pIdx ps = None \<longleftrightarrow> list_all schema_point ps"
proof (induction ps arbitrary: pIdx)
  case Nil
  then show ?case by simp
next
  case (Cons p ps)
  show ?case by (cases p) (auto simp: Cons.IH)
qed

lemma parse_type_iff:
  "v \<in> set (map (Some \<circ> JStr) [''line'', ''angle'', ''freehand'', ''text'']) \<longleftrightarrow> parse_type v \<noteq> None"
  by (cases v rule: parse_type.cases) auto

lemma schema_style_iff:
  "schema_style v \<longleftrightarrow>
     (\<exists>st. v = Some st \<and> truthy (Some st) \<and> is_string (get_prop st ''strokeColor'')
        \<and> is_number (get_prop st ''strokeWidth''))"
  by (cases v rule: schema_style.cases) auto

lemma check_element_schema: "check_element idx el = None \<longleftrightarrow> schema_element el"
proof (cases el)
  case (JObj kvs)
  show ?thesis
  proof (cases "map_of kvs ''points''")
    case None
    with JObj show ?thesis by (simp add: check_element_def)
  next
    case (Some pv)
    show ?thesis
    proof (cases pv)
      case (JArr ps)
      show ?thesis
      proof (cases "check_points idx 0 ps")
        case None
        then have "list_all schema_point ps" by (simp add: check_points_schema)
        with JObj Some JArr None show ?thesis
          unfolding check_element_def
          by (auto simp: parse_type_iff[simplified] schema_style_iff split: option.splits)
      next
        case (Some e)
        then have "\<not> list_all schema_point ps"
          using check_points_schema[of idx 0 ps] by simp
        with JObj \<open>map_of kvs ''points'' = Some pv\<close> JArr Some show ?thesis
          by (simp add: check_element_def)
      qed
    qed (use JObj Some in \<open>simp_all add: check_element_def\<close>)
  qed
qed (simp_all add: check_element_def)

lemma check_elements_schema:
  "check_elements idx els = None \<longleftrightarrow> list_all schema_element els"
proof (induction els arbitrary: idx)
  case Nil
  then show ?case by simp
next
  case (Cons el els)
  show ?case
  proof (cases "check_element idx el")
    case None
    then have "schema_element el" by (simp add: check_element_schema)
    with None show ?thesis by (simp add: Cons.IH)
  next
    case (Some e)
    then have "\<not> schema_element el" using check_element_schema[of idx el] by simp
    with Some show ?thesis by simp
  qed
qed

lemma deserializeDrawing_accepts:
  "deserializeDrawing (Some d) = Inr els \<longleftrightarrow> d = JArr els \<and> schema_document d"
proof (cases d)
  case (JArr vs)
  show ?thesis
  proof (cases "check_elements 0 vs")
    case None
    then have "list_all schema_element vs" by (simp add: check_elements_schema)
    with JArr None show ?thesis by (auto simp: deserializeDrawing_def)
  next
    case (Some e)
    then have "\<not> list_all schema_element vs" using check_elements_schema[of 0 vs] by simp
    with JArr Some show ?thesis by (auto simp: deserializeDrawing_def)
  qed
qed (simp_all add: deserializeDrawing_def)

lemma deserializeDrawing_rejects:
  assumes "\<not> schema_document d"
  shows "\<exists>e. deserializeDrawing (Some d) = Inl e"
proof (cases "deserializeDrawing (Some d)")
  case (Inl e)
  then show ?thesis by blast
next
  case (Inr els)
  with assms show ?thesis by (simp add: deserializeDrawing_accepts)
qed

text \<open>What is written for an element is in the schema and reads back as the element.\<close>

lemma schema_point_json: "schema_point (point_json p)"
  by (simp add: point_json_def)

lemma schema_element_json: "schema_element (element_json el)"
  by (cases "el_type el")
     (simp_all add: element_json_def style_json_def list_all_iff schema_point_json)

lemma as_point_json: "as_point (point_json p) = Some p"
  by (simp add: as_point_def point_json_def)

lemma as_points_json: "as_points (map point_json ps) = Some ps"
  by (induction ps) (simp_all add: as_point_json)

lemma as_style_json: "as_style (style_json st) = Some st"
  by (simp add: as_style_def style_json_def map_of_opt_field as_string_JStr)

lemma as_measurements_json: "as_measurements (Some (measurements_json m)) = Some m"
  by (simp add: as_measurements_def measurements_json_def map_add_def map_of_opt_field
      as_number_JNum split: option.splits)

lemma as_measurements_opt:
  "as_measurements (map_option measurements_json v) = v"
  by (cases v) (simp_all add: as_measurements_json, simp add: as_measurements_def)

lemma parse_type_name: "parse_type (Some (JStr (type_name ty))) = Some ty"
  by (cases ty) simp_all

lemma element_json_lookup:
  "get_prop (element_json el) ''id'' = Some (JStr (el_id el))"
  "get_prop (element_json el) ''type'' = Some (JStr (type_name (el_type el)))"
  "get_prop (element_json el) ''points'' = Some (JArr (map point_json (points el)))"
  "get_prop (element_json el) ''style'' = Some (style_json (style el))"
  "get_prop (element_json el) ''layerId'' = Some (JStr (layerId el))"
  "get_prop (element_json el) ''text'' = map_option JStr (el_text el)"
  "get_prop (element_json el) ''fontSize'' = map_option JNum (fontSize el)"
  "get_prop (element_json el) ''measurements'' = map_option measurements_json (measurements el)"
  "get_prop (element_json el) ''selected'' = map_option JBool (selected el)"
  by (simp_all add: element_json_def map_add_def map_of_opt_field split: option.splits)

lemma as_element_json: "as_element (element_json el) = Some el"
  by (simp add: as_element_def element_json_lookup parse_type_name as_points_json as_style_json
      as_string_JStr as_number_JNum as_bool_JBool as_measurements_opt
      del: parse_type.simps)

text \<open>
  C9. Writing any list of elements and reading the text back succeeds, and the entries
  returned are the elements that were written. Reading throws an error on every document
  that violates the schema (the root an array; each entry an object with string \<open>id\<close>,
  \<open>type\<close> among line, angle, freehand, text, an array \<open>points\<close> of objects with
  numeric \<open>x\<close> and \<open>y\<close>, a \<open>style\<close> object with string \<open>strokeColor\<close> and numeric
  \<open>strokeWidth\<close>, string \<open>layerId\<close>), and on a text that is not JSON.
\<close>

theorem serialization_round_trip:
  "(\<exists>ds. deserializeDrawing (Some (serializeDrawing els)) = Inr ds
          \<and> map as_element ds = map Some els)
   \<and> (\<not> schema_document d \<longrightarrow> (\<exists>e. deserializeDrawing (Some d) = Inl e))
   \<and> deserializeDrawing None = Inl SyntaxError"
proof -
  have "schema_document (serializeDrawing els)"
    by (simp add: serializeDrawing_def list_all_iff schema_element_json)
  then have "deserializeDrawing (Some (serializeDrawing els)) = Inr (map element_json els)"
    by (simp add: deserializeDrawing_accepts serializeDrawing_def)
  moreover have "map as_element (map element_json els) = map Some els"
    by (simp add: as_element_json)
  moreover have "deserializeDrawing None = Inl SyntaxError"
    by (simp add: deserializeDrawing_def)
  ultimately show ?thesis using deserializeDrawing_rejects by blast
qed

theorem serialization_round_trip_witness:
  "(\<exists>ds. deserializeDrawing (Some (serializeDrawing [example_line])) = Inr ds
          \<and> map as_element ds = [Some example_line])
   \<and> \<not> schema_document bad_document
   \<and> deserializeDrawing (Some bad_document) = Inl (Missing_id 0)"
proof -
  have "\<not> schema_document bad_document" by (simp add: bad_document_def)
  moreover have "deserializeDrawing (Some bad_document) = Inl (Missing_id 0)"
    by (simp add: bad_document_def deserializeDrawing_def check_element_def)
  ultimately show ?thesis
    using serialization_round_trip[of "[example_line]" bad_document] by simp
qed

end
